theory Spec2Isabelle
  imports Complex_Main
begin

unbundle bit_operations_syntax

section \<open>Errors\<close>

text \<open>
  The exceptions the modelled code can raise. A function that may raise returns
  \<open>error + 'a\<close>, with \<open>Inl\<close> for the exception.
\<close>

datatype error = ValueError | AssertionError | IndexError | ZeroDivisionError | RuntimeError

section \<open>Masks and the data set\<close>

text \<open>
  \<^verbatim>\<open>torch.ones(1, size, size)\<close>: a tensor with a leading dimension of one, as a list
  holding one \<open>size \<times> size\<close> matrix.
\<close>

definition ones :: "nat \<Rightarrow> nat \<Rightarrow> nat \<Rightarrow> real list list list" where
  "ones a b c = replicate a (replicate b (replicate c 1))"

text \<open>
  \<^verbatim>\<open>torch.triu(t, diagonal=d)\<close> works on the last two dimensions: entry \<open>(i, j)\<close> is kept
  when \<open>j - i \<ge> d\<close> and is zero otherwise.
\<close>

definition triu :: "real list list list \<Rightarrow> int \<Rightarrow> real list list list" where
  "triu t diagonal =
     map (\<lambda>m. map (\<lambda>i. map (\<lambda>j. if int j - int i \<ge> diagonal then m ! i ! j else 0)
                             [0..<length (m ! i)])
                 [0..<length m]) t"

text \<open>\<^verbatim>\<open>.type(torch.int)\<close>: conversion to an integer tensor truncates towards zero.\<close>

definition type_int :: "real list list list \<Rightarrow> int list list list" where
  "type_int t = map (map (map (\<lambda>v. if v < 0 then \<lceil>v\<rceil> else \<lfloor>v\<rfloor>))) t"

text \<open>
  \<^verbatim>\<open>
  def causal_mask(size):
      mask = torch.triu(torch.ones(1,size,size), diagonal=1).type(torch.int)
      return mask==0
  \<close>
\<close>

definition causal_mask :: "nat \<Rightarrow> bool list list list" where
  "causal_mask sz =
     (let mask = type_int (triu (ones 1 sz sz) 1)
      in map (map (map (\<lambda>v. v = 0))) mask)"

text \<open>
  The data set object. The tokenizers are external: each is a function from a
  sentence to its token ids. The three special tokens are one-element tensors in
  the source, all looked up in the source tokenizer; here they are their ids.
\<close>

record BilingualDataset =
  seq_len :: int
  tokenizer_src :: "string \<Rightarrow> int list"
  tokenizer_tgt :: "string \<Rightarrow> int list"
  sos_token :: int
  eos_token :: int
  pad_token :: int

text \<open>The dictionary \<^verbatim>\<open>__getitem__\<close> returns.\<close>

record sample =
  encoder_input :: "int list"
  decoder_input :: "int list"
  encoder_mask :: "int list list"
  decoder_mask :: "int list list list"
  label :: "int list"
  src_text :: string
  tgt_text :: string

text \<open>
  \<^verbatim>\<open>(t != self.pad_token).unsqueeze(0).int()\<close>: the padding mask, of shape
  \<open>(1, seq_len)\<close>, with 1 at the positions that do not hold the PAD id.
\<close>

definition padding_mask :: "int list \<Rightarrow> int \<Rightarrow> int list list" where
  "padding_mask t pad = [map (\<lambda>x. of_bool (x \<noteq> pad)) t]"

text \<open>
  \<^verbatim>\<open>p & c\<close> for an integer tensor \<open>p\<close> of shape \<open>(1, n)\<close> and a boolean tensor
  \<open>c\<close> of shape \<open>(1, n, n)\<close>. Broadcasting aligns the trailing dimensions, so the
  single row of \<open>p\<close> is combined with every row of every matrix of \<open>c\<close>; the
  boolean is promoted to an integer.
\<close>

definition and_broadcast :: "int list list \<Rightarrow> bool list list list \<Rightarrow> int list list list" where
  "and_broadcast p c = map (map (\<lambda>crow. map2 (\<lambda>a b. a AND of_bool b) (hd p) crow)) c"

definition enc_num_padding_tokens :: "BilingualDataset \<Rightarrow> int list \<Rightarrow> int" where
  "enc_num_padding_tokens self enc_input_tokens =
     seq_len self - int (length enc_input_tokens) - 2"

definition dec_num_padding_tokens :: "BilingualDataset \<Rightarrow> int list \<Rightarrow> int" where
  "dec_num_padding_tokens self dec_input_tokens =
     seq_len self - int (length dec_input_tokens) - 1"

text \<open>
  \<^verbatim>\<open>BilingualDataset.__getitem__\<close>. The argument is the pair of sentences
  \<^verbatim>\<open>self.ds[index]\<close> holds (source text, target text). The list
  \<^verbatim>\<open>[self.pad_token] * n\<close> has \<open>n\<close> elements for \<open>n \<ge> 0\<close>, which the guard ensures.
\<close>

definition getitem :: "BilingualDataset \<Rightarrow> string \<times> string \<Rightarrow> error + sample" where
  "getitem self src_target_pair =
     (let src = fst src_target_pair;
          tgt = snd src_target_pair;
          enc_input_tokens = tokenizer_src self src;
          dec_input_tokens = tokenizer_tgt self tgt;
          enc_n = enc_num_padding_tokens self enc_input_tokens;
          dec_n = dec_num_padding_tokens self dec_input_tokens
      in if enc_n < 0 \<or> dec_n < 0 then Inl ValueError
         else
           let enc_in = [sos_token self] @ enc_input_tokens @ [eos_token self]
                          @ replicate (nat enc_n) (pad_token self);
               dec_in = [sos_token self] @ dec_input_tokens
                          @ replicate (nat dec_n) (pad_token self);
               lbl = dec_input_tokens @ [eos_token self]
                          @ replicate (nat dec_n) (pad_token self)
           in if int (length enc_in) \<noteq> seq_len self then Inl AssertionError
              else if int (length dec_in) \<noteq> seq_len self then Inl AssertionError
              else if int (length lbl) \<noteq> seq_len self then Inl AssertionError
              else Inr \<lparr> encoder_input = enc_in,
                         decoder_input = dec_in,
                         encoder_mask = padding_mask enc_in (pad_token self),
                         decoder_mask = and_broadcast (padding_mask dec_in (pad_token self))
                                                      (causal_mask (length dec_in)),
                         label = lbl,
                         src_text = src,
                         tgt_text = tgt \<rparr>)"

text \<open>Two concrete data sets, used to run the definitions.\<close>

definition ds10 :: BilingualDataset where
  "ds10 = \<lparr> seq_len = 10,
             tokenizer_src = (\<lambda>t. if t = ''a b'' then [7, 9] else [11, 12, 13, 14, 15, 16, 17, 18, 19]),
             tokenizer_tgt = (\<lambda>t. [5, 6]),
             sos_token = 2, eos_token = 3, pad_token = 1 \<rparr>"

definition ds4 :: BilingualDataset where
  "ds4 = \<lparr> seq_len = 4,
            tokenizer_src = (\<lambda>t. [7]),
            tokenizer_tgt = (\<lambda>t. [8]),
            sos_token = 2, eos_token = 3, pad_token = 1 \<rparr>"


section \<open>Input embeddings\<close>

text \<open>
  \<^verbatim>\<open>
  class InputEmbeddings(nn.Module):
      def __init__(self, d_model: int, vocab_size: int):
          self.d_model = d_model
          self.vocab_size = vocab_size
          self.embedding = nn.Embedding(vocab_size, d_model)
      def forward(self, x):
          return self.embedding(x) * math.sqrt(self.d_model)
  \<close>
  The embedding is its weight matrix, one row per token id. Numbers are real numbers
  throughout: rounding of floating point is not modelled.
\<close>

record InputEmbeddings =
  d_model :: nat
  vocab_size :: nat
  embedding :: "real list list"

text \<open>
  What \<^verbatim>\<open>nn.Embedding(vocab_size, d_model)\<close> constructs: \<open>vocab_size\<close> rows of
  \<open>d_model\<close> numbers.
\<close>

definition InputEmbeddings_shaped :: "InputEmbeddings \<Rightarrow> bool" where
  "InputEmbeddings_shaped self \<longleftrightarrow>
     length (embedding self) = vocab_size self \<and>
     list_all (\<lambda>row. length row = d_model self) (embedding self)"

text \<open>
  The lookup of \<^verbatim>\<open>nn.Embedding\<close> on a tensor of ids of shape (batch, seq_len): an id
  outside the table raises IndexError.
\<close>

definition embedding_lookup :: "real list list \<Rightarrow> int list list \<Rightarrow> error + real list list list" where
  "embedding_lookup weight x =
     (if list_all (list_all (\<lambda>t. 0 \<le> t \<and> t < int (length weight))) x
      then Inr (map (map (\<lambda>t. weight ! nat t)) x)
      else Inl IndexError)"

definition InputEmbeddings_forward :: "InputEmbeddings \<Rightarrow> int list list \<Rightarrow> error + real list list list" where
  "InputEmbeddings_forward self x =
     (case embedding_lookup (embedding self) x of
        Inl e \<Rightarrow> Inl e
      | Inr y \<Rightarrow> Inr (map (map (map (\<lambda>v. v * sqrt (real (d_model self))))) y))"

definition emb23 :: InputEmbeddings where
  "emb23 = \<lparr> d_model = 2, vocab_size = 3, embedding = [[1, 2], [3, 4], [5, 6]] \<rparr>"

section \<open>Positional encoding\<close>

text \<open>
  \<^verbatim>\<open>torch.arange(0, n, 2)\<close>: the even numbers below \<open>n\<close>.
\<close>

definition arange2 :: "nat \<Rightarrow> nat list" where
  "arange2 n = map (\<lambda>k. 2 * k) [0..<(n + 1) div 2]"

text \<open>
  \<^verbatim>\<open>torch.exp(torch.arange(0, d_model, 2).float() * (-math.log(10000.0) / d_model))\<close>.
  The division is Python's, on an \<^verbatim>\<open>int\<close> divisor: it raises for \<open>d_model = 0\<close>.
\<close>

definition div_term :: "nat \<Rightarrow> error + real list" where
  "div_term dm =
     (if dm = 0 then Inl ZeroDivisionError
      else Inr (map (\<lambda>k. exp (real k * (- ln 10000 / real dm))) (arange2 dm)))"

text \<open>
  \<^verbatim>\<open>t[:, start::2] = src\<close> for a table \<open>t\<close> of \<open>ncols\<close> columns and a source of
  \<open>n_src\<close> columns with as many rows as \<open>t\<close>. The slice has
  \<open>(ncols + 1 - start) div 2\<close> columns; the source must have as many, or one column
  (which is then broadcast), else the assignment raises RuntimeError.
\<close>

definition set_cols ::
    "nat \<Rightarrow> nat \<Rightarrow> real list list \<Rightarrow> nat \<Rightarrow> real list list \<Rightarrow> error + real list list" where
  "set_cols start ncols t n_src src =
     (let n_dst = (ncols + 1 - start) div 2
      in if n_src = n_dst \<or> n_src = 1
         then Inr (map2 (\<lambda>trow srow.
                     map (\<lambda>c. if start \<le> c \<and> even (c - start)
                               then srow ! (if n_src = 1 then 0 else (c - start) div 2)
                               else trow ! c) [0..<ncols]) t src)
         else Inl RuntimeError)"

text \<open>
  The module: the dropout probability and the registered buffer \<^verbatim>\<open>pe\<close>, of shape
  \<open>(1, seq_len, d_model)\<close>.
\<close>

record PositionalEncoding =
  pe_d_model :: nat
  pe_seq_len :: nat
  pe_dropout :: real
  pe :: "real list list list"

text \<open>
  \<^verbatim>\<open>
  def __init__(self, d_model: int, seq_len: int, dropout: float):
      super().__init__()
      self.d_model = d_model
      self.seq_len = seq_len
      self.dropout = nn.Dropout(dropout)
      pe = torch.zeros(seq_len, d_model)
      position = torch.arange(0, seq_len, dtype=torch.float).unsqueeze(1)
      div_term = torch.exp(torch.arange(0, d_model, 2).float() * (-math.log(10000.0)/ d_model))
      pe[:, 0::2] = torch.sin(position * div_term)
      pe[:, 1::2] = torch.cos(position * div_term)
      pe = pe.unsqueeze(0)
      self.register_buffer('pe', pe)
  \<close>
  \<^verbatim>\<open>nn.Dropout(p)\<close> raises ValueError for a probability \<open>p\<close> outside \<open>[0, 1]\<close>, before
  anything of the table is computed.
\<close>

definition PositionalEncoding_init :: "nat \<Rightarrow> nat \<Rightarrow> real \<Rightarrow> error + PositionalEncoding" where
  "PositionalEncoding_init dm sl dropout =
     (if dropout < 0 \<or> 1 < dropout then Inl ValueError
      else
        let pe0 = replicate sl (replicate dm 0);
            position = map (\<lambda>p. [real p]) [0..<sl]
        in case div_term dm of
             Inl e \<Rightarrow> Inl e
           | Inr dt \<Rightarrow>
              (let angle = map (\<lambda>prow. map (\<lambda>d. hd prow * d) dt) position
               in case set_cols 0 dm pe0 (length dt) (map (map sin) angle) of
                    Inl e \<Rightarrow> Inl e
                  | Inr pe1 \<Rightarrow>
                     (case set_cols 1 dm pe1 (length dt) (map (map cos) angle) of
                        Inl e \<Rightarrow> Inl e
                      | Inr pe2 \<Rightarrow>
                          Inr \<lparr> pe_d_model = dm, pe_seq_len = sl, pe_dropout = dropout,
                                pe = [pe2] \<rparr>)))"

section \<open>Layer normalization\<close>

text \<open>
  \<^verbatim>\<open>
  class LayerNormalization(nn.Module):
      def __init__(self, eps: float = 10**-6) -> None:
          self.eps = eps
          self.alpha = nn.Parameter(torch.ones(1)) # Multiplied
          self.bias = nn.Parameter(torch.zeros(1)) # Added
      def forward(self, x):
          mean = x.mean(dim=-1, keepdim=True)
          std = x.std(dim=-1, keepdim=True)
          return self.alpha + (x - mean) / (std + self.eps) + self.bias
  \<close>
  The two parameters are one-element tensors, here their single entries.
\<close>

record LayerNormalization =
  eps :: real
  alpha :: real
  bias :: real

definition LayerNormalization_init :: "real \<Rightarrow> LayerNormalization" where
  "LayerNormalization_init e = \<lparr> eps = e, alpha = 1, bias = 0 \<rparr>"

text \<open>The constructor called with no argument: \<^verbatim>\<open>eps = 10**-6\<close>.\<close>

definition LayerNormalization_default :: LayerNormalization where
  "LayerNormalization_default = LayerNormalization_init (1 / 10 ^ 6)"

text \<open>
  \<^verbatim>\<open>x.mean(dim=-1)\<close> and \<^verbatim>\<open>x.std(dim=-1)\<close> of one vector of the last axis.
  \<^verbatim>\<open>torch.std\<close> is the unbiased estimate: it divides by \<open>n - 1\<close>.
\<close>

definition mean :: "real list \<Rightarrow> real" where
  "mean x = sum_list x / real (length x)"

definition std :: "real list \<Rightarrow> real" where
  "std x = sqrt (sum_list (map (\<lambda>v. (v - mean x)\<^sup>2) x) / (real (length x) - 1))"

text \<open>
  \<^verbatim>\<open>forward\<close> on one vector of the last axis; on a tensor it acts on each such vector
  on its own.
\<close>

definition LayerNormalization_forward :: "LayerNormalization \<Rightarrow> real list \<Rightarrow> real list" where
  "LayerNormalization_forward self x =
     map (\<lambda>v. alpha self + (v - mean x) / (std x + eps self) + bias self) x"

text \<open>
  The specification's words, for comparison: subtract the mean, divide by the
  standard deviation plus \<open>eps\<close>, then \<open>alpha * normalized + bias\<close>.
\<close>

definition LayerNormalization_spec :: "LayerNormalization \<Rightarrow> real list \<Rightarrow> real list" where
  "LayerNormalization_spec self x =
     map (\<lambda>v. alpha self * ((v - mean x) / (std x + eps self)) + bias self) x"

section \<open>Scaled dot-product attention\<close>

text \<open>
  Matrices are lists of rows. The static method \<^verbatim>\<open>attention\<close> works on tensors of
  shape (batch, h, seq_len, d_k), on each (batch, head) pair on its own; the model is
  of one such pair: \<open>query\<close>, \<open>key\<close> and \<open>value\<close> are matrices of \<open>seq_len\<close> rows
  of \<open>d_k\<close> numbers, and \<open>mask\<close> is the mask as broadcast to that pair, a matrix of
  integers with one row for every query and one column for every key.
\<close>

definition transpose_m :: "real list list \<Rightarrow> real list list" where
  "transpose_m m = (if m = [] then [] else map (\<lambda>j. map (\<lambda>row. row ! j) m) [0..<length (hd m)])"

definition matmul :: "real list list \<Rightarrow> real list list \<Rightarrow> real list list" where
  "matmul a b = map (\<lambda>row. map (\<lambda>col. sum_list (map2 (*) row col)) (transpose_m b)) a"

text \<open>
  \<^verbatim>\<open>t.masked_fill(m, v)\<close> returns a new tensor, equal to \<open>t\<close> but for \<open>v\<close> where
  \<open>m\<close> is true. It does not change \<open>t\<close> (the method that does is \<^verbatim>\<open>masked_fill_\<close>).
\<close>

definition masked_fill :: "real list list \<Rightarrow> bool list list \<Rightarrow> real \<Rightarrow> real list list" where
  "masked_fill t m v = map2 (\<lambda>trow mrow. map2 (\<lambda>x b. if b then v else x) trow mrow) t m"

text \<open>\<^verbatim>\<open>row.softmax(dim=-1)\<close> on one row.\<close>

definition softmax :: "real list \<Rightarrow> real list" where
  "softmax z = map (\<lambda>v. exp v / sum_list (map exp z)) z"

text \<open>
  \<^verbatim>\<open>
  def attention(query, key, value, mask, dropout: nn.Dropout):
      d_k = query.shape[-1]
      attention_scores = (query @ key.transpose(-2,-1)) / math.sqrt(d_k)
      if mask is not None:
          attention_scores.masked_fill(mask==0, -1e9)
      attention_scores = attention_scores.softmax(dim=-1)
      if dropout is not None:
          attention_scores = dropout(attention_scores)
      return (attention_scores @ value), attention_scores
  \<close>
  The value of the \<^verbatim>\<open>masked_fill\<close> call is not assigned to anything: the statement
  computes it and drops it, which the binding of \<open>dropped\<close> below writes out. The
  dropout module is a function on the scores (the identity in evaluation mode); the
  argument \<^verbatim>\<open>mask\<close> is \<open>msk\<close> and \<^verbatim>\<open>value\<close> is \<open>val\<close>.
\<close>

definition attention ::
    "real list list \<Rightarrow> real list list \<Rightarrow> real list list \<Rightarrow> int list list option
       \<Rightarrow> (real list list \<Rightarrow> real list list) option
       \<Rightarrow> real list list \<times> real list list" where
  "attention query key val msk dropout =
     (let d_k = length (hd query);
          attention_scores = map (map (\<lambda>x. x / sqrt (real d_k))) (matmul query (transpose_m key));
          dropped = (case msk of
                       None \<Rightarrow> None
                     | Some m \<Rightarrow> Some (masked_fill attention_scores
                                          (map (map (\<lambda>b. b = 0)) m) (- 1000000000)));
          attention_scores = map softmax attention_scores;
          attention_scores = (case dropout of
                                None \<Rightarrow> attention_scores
                              | Some d \<Rightarrow> d attention_scores)
      in (matmul attention_scores val, attention_scores))"

section \<open>Projection layer\<close>

text \<open>
  \<^verbatim>\<open>nn.Linear(in_features, out_features)\<close>: a weight matrix of \<open>out_features\<close> rows
  of \<open>in_features\<close> numbers, and a bias of \<open>out_features\<close> numbers.
\<close>

record Linear =
  in_features :: nat
  out_features :: nat
  weight :: "real list list"
  linear_bias :: "real list"

definition Linear_shaped :: "Linear \<Rightarrow> bool" where
  "Linear_shaped l \<longleftrightarrow>
     length (weight l) = out_features l \<and>
     list_all (\<lambda>row. length row = in_features l) (weight l) \<and>
     length (linear_bias l) = out_features l"

text \<open>The linear map on one vector of the last axis: \<open>x W\<^sup>T + b\<close>.\<close>

definition Linear_apply :: "Linear \<Rightarrow> real list \<Rightarrow> real list" where
  "Linear_apply l x = map2 (\<lambda>wrow b. sum_list (map2 (*) x wrow) + b) (weight l) (linear_bias l)"

text \<open>\<^verbatim>\<open>torch.log_softmax(z, dim=-1)\<close> on one vector of the last axis.\<close>

definition log_softmax :: "real list \<Rightarrow> real list" where
  "log_softmax z = map (\<lambda>v. v - ln (sum_list (map exp z))) z"

text \<open>
  \<^verbatim>\<open>
  class ProjectionLayer(nn.Module):
      def __init__(self, d_model: int, vocab_size: int) -> None:
          self.proj = nn.Linear(d_model,vocab_size)
      def forward(self, x):
          return torch.log_softmax(self.proj(x), dim=-1)
  \<close>
  on a tensor of shape (batch, seq_len, d_model). A last axis that is not of
  \<open>in_features\<close> numbers makes the linear map raise RuntimeError.
\<close>

record ProjectionLayer =
  proj :: Linear

definition ProjectionLayer_forward :: "ProjectionLayer \<Rightarrow> real list list list \<Rightarrow> error + real list list list" where
  "ProjectionLayer_forward self x =
     (if list_all (list_all (\<lambda>v. length v = in_features (proj self))) x
      then Inr (map (map (\<lambda>v. log_softmax (Linear_apply (proj self) v))) x)
      else Inl RuntimeError)"

definition proj23 :: ProjectionLayer where
  "proj23 = \<lparr> proj = \<lparr> in_features = 2, out_features = 3,
                       weight = [[1, 0], [0, 1], [1, 1]], linear_bias = [0, 0, 0] \<rparr> \<rparr>"

section \<open>Greedy decoding\<close>

text \<open>
  The \<^verbatim>\<open>model\<close> argument of \<^verbatim>\<open>greeedy_decode\<close>: an object with the three methods
  the function calls. The decoder input is a tensor of shape \<open>(1, n)\<close>, here its single
  row; the target mask is an integer tensor of shape \<open>(1, n, n)\<close>.
\<close>

record ('src, 'smask, 'enc, 'out, 'prob) model =
  encode :: "'src \<Rightarrow> 'smask \<Rightarrow> 'enc"
  decode :: "'enc \<Rightarrow> 'smask \<Rightarrow> int list \<Rightarrow> int list list list \<Rightarrow> 'out"
  project :: "'out \<Rightarrow> 'prob"

text \<open>
  \<^verbatim>\<open>.type_as(source_mask)\<close>: the boolean causal mask becomes a tensor of the type of
  the source mask, which is the integer encoder mask of the data set.
\<close>

definition type_as_int :: "bool list list list \<Rightarrow> int list list list" where
  "type_as_int t = map (map (map of_bool)) t"

text \<open>
  The state of the loop: the variable \<^verbatim>\<open>decoder_input\<close>, and two observations that
  the source does not hold: the arguments \<open>(tgt, tgt_mask)\<close> of every call of
  \<^verbatim>\<open>model.decode\<close> so far, oldest first, and the number of times the loop body has
  been entered.
\<close>

record greedy_state =
  dec_input :: "int list"
  decode_calls :: "(int list \<times> int list list list) list"
  iterations :: nat

text \<open>
  One pass through the body of \<^verbatim>\<open>while True\<close>; the first component tells whether
  the pass ended in \<^verbatim>\<open>break\<close>.
  \<^verbatim>\<open>
      if decoder_input.size(1) == max_len:
          break
      decoder_mask = causal_mask(decoder_input.size(1)).type_as(source_mask).to(device)
      out = model.decode(encoder_output, source_mask, decoder_input, decoder_mask)
      prob = model.project(out[:,-1])
      _, next_word = torch.max(prob, dim =1)
      decoder_input = torch.cat([decoder_input,
          torch.empty(1,1).type_as(source).fill_(next_word.item()).to(device)], dim=1)
      if next_word == eos_idx:
          break
  \<close>
  The slice \<^verbatim>\<open>out[:,-1]\<close> and the arg-max of \<^verbatim>\<open>torch.max\<close> belong to the tensor
  library: they are the parameters \<open>last_position\<close> and \<open>torch_max\<close>.
\<close>

definition greeedy_step ::
    "('src, 'smask, 'enc, 'out, 'prob) model \<Rightarrow> ('out \<Rightarrow> 'out) \<Rightarrow> ('prob \<Rightarrow> int)
       \<Rightarrow> 'enc \<Rightarrow> 'smask \<Rightarrow> int \<Rightarrow> int \<Rightarrow> greedy_state \<Rightarrow> bool \<times> greedy_state" where
  "greeedy_step m last_position torch_max encoder_output source_mask eos_idx max_len s =
     (let s = s\<lparr>iterations := Suc (iterations s)\<rparr>
      in if int (length (dec_input s)) = max_len then (True, s)
         else
           let decoder_mask = type_as_int (causal_mask (length (dec_input s)));
               out = decode m encoder_output source_mask (dec_input s) decoder_mask;
               prob = project m (last_position out);
               next_word = torch_max prob;
               s = s\<lparr>dec_input := dec_input s @ [next_word],
                      decode_calls := decode_calls s @ [(dec_input s, decoder_mask)]\<rparr>
           in (next_word = eos_idx, s))"

text \<open>The loop. It need not end: \<open>None\<close> is the run that never leaves it.\<close>

partial_function (option) greeedy_loop ::
    "('src, 'smask, 'enc, 'out, 'prob) model \<Rightarrow> ('out \<Rightarrow> 'out) \<Rightarrow> ('prob \<Rightarrow> int)
       \<Rightarrow> 'enc \<Rightarrow> 'smask \<Rightarrow> int \<Rightarrow> int \<Rightarrow> greedy_state \<Rightarrow> greedy_state option" where
  "greeedy_loop m last_position torch_max encoder_output source_mask eos_idx max_len s =
     (let r = greeedy_step m last_position torch_max encoder_output source_mask eos_idx max_len s
      in if fst r then Some (snd r)
         else greeedy_loop m last_position torch_max encoder_output source_mask eos_idx max_len
                (snd r))"

text \<open>
  The same loop cut off after at most \<open>n\<close> passes: the state the loop is in at that
  moment, whether or not it ever ends.
\<close>

fun greeedy_iter ::
    "('src, 'smask, 'enc, 'out, 'prob) model \<Rightarrow> ('out \<Rightarrow> 'out) \<Rightarrow> ('prob \<Rightarrow> int)
       \<Rightarrow> 'enc \<Rightarrow> 'smask \<Rightarrow> int \<Rightarrow> int \<Rightarrow> nat \<Rightarrow> greedy_state \<Rightarrow> greedy_state" where
  "greeedy_iter m last_position torch_max encoder_output source_mask eos_idx max_len 0 s = s"
| "greeedy_iter m last_position torch_max encoder_output source_mask eos_idx max_len (Suc n) s =
     (let r = greeedy_step m last_position torch_max encoder_output source_mask eos_idx max_len s
      in if fst r then snd r
         else greeedy_iter m last_position torch_max encoder_output source_mask eos_idx max_len n
                (snd r))"

text \<open>
  The value, as an integer, of the float32 number nearest to an integer \<open>n\<close>. A
  float32 number has a significand of 24 bits: with \<open>u\<close> the least power of two for
  which \<open>\<bar>n\<bar> div u < 2\<^sup>2\<^sup>4\<close>, the magnitude is rounded to the nearest multiple of
  \<open>u\<close>, a tie going to the multiple whose quotient by \<open>u\<close> is even. The ids of a
  tokenizer are below \<open>2\<^sup>3\<^sup>2\<close>, far below the greatest float32 number; the bound of
  the exponent is not modelled.
\<close>

function float32_ulp :: "nat \<Rightarrow> nat \<Rightarrow> nat" where
  "float32_ulp u n = (if n div u < 2 ^ 24 then u else float32_ulp (2 * u) n)"
  by pat_completeness auto
termination
proof (relation "measure (\<lambda>(u, n). n div u)")
  show "wf (measure (\<lambda>(u, n). n div u))" by simp
next
  fix u n :: nat
  assume a: "\<not> n div u < 2 ^ 24"
  then have "0 < n div u" by simp
  then have "n div u div 2 < n div u" by simp
  moreover have "n div (2 * u) = n div u div 2"
    by (simp add: div_mult2_eq mult.commute)
  ultimately show "((2 * u, n), (u, n)) \<in> measure (\<lambda>(u, n). n div u)" by simp
qed

definition float32_of_int :: "int \<Rightarrow> int" where
  "float32_of_int n =
     (let a = nat \<bar>n\<bar>;
          u = float32_ulp 1 a;
          q = a div u;
          r = a mod u;
          m = (if 2 * r < u then q
               else if u < 2 * r then q + 1
               else if even q then q else q + 1)
      in sgn n * int (m * u))"

text \<open>
  \<^verbatim>\<open>
  def greeedy_decode(model, source, source_mask, tokenizer_src, tokenizer_tgt, max_len, device):
      sos_idx = tokenizer_tgt.token_to_id('[SOS]')
      eos_idx = tokenizer_tgt.token_to_id('[EOS]')
      encoder_output = model.encode(source, source_mask)
      decoder_input = torch.empty(1,1).fill_(sos_idx).type_as(source).to(device)
      while True: ...
      return decoder_input.squeeze(0)
  \<close>
  The two ids the target tokenizer gives are arguments. \<^verbatim>\<open>torch.empty(1,1)\<close> is a
  float32 tensor and is filled with \<^verbatim>\<open>sos_idx\<close> before \<^verbatim>\<open>.type_as(source)\<close> turns it
  into a tensor of the integer type of \<^verbatim>\<open>source\<close>: the first id of the decoder input
  is \<^verbatim>\<open>sos_idx\<close> rounded to float32. (The ids the loop appends are filled into a
  tensor that has the integer type already, and are kept as they are.) The result is
  the final state of the loop, whose \<open>dec_input\<close> is the returned sequence.
\<close>

definition greeedy_init :: "int \<Rightarrow> greedy_state" where
  "greeedy_init sos_idx =
     \<lparr> dec_input = [float32_of_int sos_idx], decode_calls = [], iterations = 0 \<rparr>"

definition greeedy_decode ::
    "('src, 'smask, 'enc, 'out, 'prob) model \<Rightarrow> ('out \<Rightarrow> 'out) \<Rightarrow> ('prob \<Rightarrow> int)
       \<Rightarrow> 'src \<Rightarrow> 'smask \<Rightarrow> int \<Rightarrow> int \<Rightarrow> int \<Rightarrow> greedy_state option" where
  "greeedy_decode m last_position torch_max source source_mask sos_idx eos_idx max_len =
     (let encoder_output = encode m source source_mask
      in greeedy_loop m last_position torch_max encoder_output source_mask eos_idx max_len
           (greeedy_init sos_idx))"

text \<open>
  The id the loop body appends to a decoder input \<open>xs\<close>, for the statements below.
\<close>

definition next_word ::
    "('src, 'smask, 'enc, 'out, 'prob) model \<Rightarrow> ('out \<Rightarrow> 'out) \<Rightarrow> ('prob \<Rightarrow> int)
       \<Rightarrow> 'enc \<Rightarrow> 'smask \<Rightarrow> int list \<Rightarrow> int" where
  "next_word m last_position torch_max encoder_output source_mask xs =
     torch_max (project m (last_position
       (decode m encoder_output source_mask xs (type_as_int (causal_mask (length xs))))))"

text \<open>
  A model to run the loop on: its decoder output is the size of the target mask it is
  given (the number of rows of the mask), and the arg-max of a size \<open>n\<close> is the id
  \<open>n + 10\<close>.
\<close>

definition count_model :: "(unit, unit, unit, nat, nat) model" where
  "count_model = \<lparr> encode = (\<lambda>src msk. ()),
                   decode = (\<lambda>enc smask tgt tgt_mask. length (hd tgt_mask)),
                   project = (\<lambda>out. out) \<rparr>"


text \<open>
  Four predicates on the state of the loop, for the proofs. \<open>calls_match\<close>: the
  \<open>k\<close>-th call of \<^verbatim>\<open>model.decode\<close> was given the first \<open>k\<close> ids of the decoder
  input and the causal mask of size \<open>k\<close>. \<open>tokens_match\<close>: every id but the first
  is what \<open>nw\<close> gives for the ids before it, \<open>nw\<close> being the function from a
  decoder input to the id the body appends to it. \<open>greedy_inv\<close> holds whenever the
  loop body is entered, \<open>greedy_post\<close> when the loop is left; \<open>first\<close> is the id the
  decoder input starts with.
\<close>

definition calls_match :: "greedy_state \<Rightarrow> bool" where
  "calls_match s \<longleftrightarrow>
     decode_calls s =
       map (\<lambda>k. (take k (dec_input s), type_as_int (causal_mask k))) [1..<length (dec_input s)]"

definition tokens_match :: "(int list \<Rightarrow> int) \<Rightarrow> greedy_state \<Rightarrow> bool" where
  "tokens_match nw s \<longleftrightarrow>
     (\<forall>k. 1 \<le> k \<and> k < length (dec_input s) \<longrightarrow> dec_input s ! k = nw (take k (dec_input s)))"



section \<open>The multi-head attention block\<close>

text \<open>
  \<^verbatim>\<open>
  class MultiHeadAttentionBlock(nn.Module):
      def forward(self, q, k, v, mask):
          query = self.w_q (q)
          key = self.w_k(k)
          value = self.w_v(v)
          query = query.view(query.shape[0], query.shape[1], self.h, self.d_k).transpose(1,2)
          key = key.view(key.shape[0], key.shape[1], self.h, self.d_k).transpose(1,2)
          value = value.view(value.shape[0], value.shape[1], self.h, self.d_k).transpose(1,2)
          x, self.attention_scores = MultiHeadAttentionBlock.attention(query, key, value, mask, self.dropout)
          x =  x.transpose(1, 2).contiguous().view(x.shape[0], -1, self.h * self.d_k)
          return self.w_o(x)
  \<close>
  on one element of the batch: \<open>q\<close>, \<open>k\<close> and \<open>v\<close> are matrices of one row of
  \<open>d_model\<close> numbers for every position, and the mask is, as for \<open>attention\<close>, the mask
  as broadcast to the scores of one head. The result is the returned tensor together
  with the scores of every head that the method stores in \<^verbatim>\<open>self.attention_scores\<close>.
\<close>

record MultiHeadAttentionBlock =
  mha_d_model :: nat
  mha_h :: nat
  mha_d_k :: nat
  w_q :: Linear
  w_k :: Linear
  w_v :: Linear
  w_o :: Linear
  mha_dropout :: "real list list \<Rightarrow> real list list"

text \<open>
  \<^verbatim>\<open>t.view(batch, seq_len, h, d_k).transpose(1,2)\<close>: head \<open>i\<close> gets, of every row, the
  \<open>d_k\<close> numbers from place \<open>i * d_k\<close> on.
\<close>

definition split_heads :: "nat \<Rightarrow> nat \<Rightarrow> real list list \<Rightarrow> real list list list" where
  "split_heads nh dk t = map (\<lambda>i. map (\<lambda>row. take dk (drop (i * dk) row)) t) [0..<nh]"

text \<open>
  \<^verbatim>\<open>x.transpose(1, 2).contiguous().view(batch, -1, h * d_k)\<close>: row \<open>p\<close> of the result
  is row \<open>p\<close> of every head, one after the other.
\<close>

definition merge_heads :: "nat \<Rightarrow> real list list list \<Rightarrow> real list list" where
  "merge_heads n xs = map (\<lambda>p. concat (map (\<lambda>xh. xh ! p) xs)) [0..<n]"

definition MultiHeadAttentionBlock_forward ::
    "MultiHeadAttentionBlock \<Rightarrow> real list list \<Rightarrow> real list list \<Rightarrow> real list list
       \<Rightarrow> int list list option \<Rightarrow> real list list \<times> real list list list" where
  "MultiHeadAttentionBlock_forward self q k v msk =
     (let query = map (Linear_apply (w_q self)) q;
          key = map (Linear_apply (w_k self)) k;
          val = map (Linear_apply (w_v self)) v;
          query = split_heads (mha_h self) (mha_d_k self) query;
          key = split_heads (mha_h self) (mha_d_k self) key;
          val = split_heads (mha_h self) (mha_d_k self) val;
          r = map (\<lambda>i. attention (query ! i) (key ! i) (val ! i) msk (Some (mha_dropout self)))
                  [0..<mha_h self];
          x = merge_heads (length q) (map fst r)
      in (map (Linear_apply (w_o self)) x, map snd r))"

text \<open>
  A block with one head on vectors of one number, whose four linear maps are the
  identity and whose dropout is switched off.
\<close>

definition linear_id1 :: Linear where
  "linear_id1 = \<lparr> in_features = 1, out_features = 1, weight = [[1]], linear_bias = [0] \<rparr>"

definition mha1 :: MultiHeadAttentionBlock where
  "mha1 = \<lparr> mha_d_model = 1, mha_h = 1, mha_d_k = 1,
            w_q = linear_id1, w_k = linear_id1, w_v = linear_id1, w_o = linear_id1,
            mha_dropout = (\<lambda>s. s) \<rparr>"

text \<open>
  A data set with sequences of two ids: the decoder input of its samples is SOS and
  one id, with nothing padded.
\<close>

definition ds2 :: BilingualDataset where
  "ds2 = \<lparr> seq_len = 2,
            tokenizer_src = (\<lambda>t. []),
            tokenizer_tgt = (\<lambda>t. [8]),
            sos_token = 2, eos_token = 3, pad_token = 1 \<rparr>"

section \<open>The transformer and the training loop\<close>

text \<open>
  Tensors are values of a type \<open>'x\<close> with an addition, masks of a type \<open>'m\<close>. The
  forward function of a submodule (an attention block, called as
  \<^verbatim>\<open>forward(q, k, v, mask)\<close>, a feed-forward block, an embedding, a positional
  encoding, the projection layer) may raise, an attention block for one when its mask
  cannot be broadcast against its scores: it returns \<open>error + 'a\<close>. An exception
  leaves every function that calls it, which \<open>and_then\<close> writes out.
\<close>

definition and_then :: "error + 'a \<Rightarrow> ('a \<Rightarrow> error + 'b) \<Rightarrow> error + 'b" where
  "and_then r f = (case r of Inl e \<Rightarrow> Inl e | Inr y \<Rightarrow> f y)"

text \<open>
  \<^verbatim>\<open>
  class ResidualConnection(nn.Module):
      def forward(self, x, sublayer):
          return x + self.dropout(sublayer(self.norm(x)))
  \<close>
\<close>

record 'x ResidualConnection =
  rc_dropout :: "'x \<Rightarrow> 'x"
  rc_norm :: "'x \<Rightarrow> 'x"

definition ResidualConnection_forward ::
    "('x::plus) ResidualConnection \<Rightarrow> 'x \<Rightarrow> ('x \<Rightarrow> error + 'x) \<Rightarrow> error + 'x" where
  "ResidualConnection_forward self x sublayer =
     and_then (sublayer (rc_norm self x)) (\<lambda>y. Inr (x + rc_dropout self y))"

text \<open>
  \<^verbatim>\<open>
  class EncoderBlock(nn.Module):
      def forward(self, x, src_mask):
          x = self.residual_connections[0](x, lambda x: self.self_attention_block(x, x, x, src_mask))
          x = self.residual_connections[1](x, self.feed_forward_block)
          return x
  \<close>
\<close>

record ('x, 'm) EncoderBlock =
  eb_self_attention_block :: "'x \<Rightarrow> 'x \<Rightarrow> 'x \<Rightarrow> 'm \<Rightarrow> error + 'x"
  eb_feed_forward_block :: "'x \<Rightarrow> error + 'x"
  eb_residual_connections :: "'x ResidualConnection list"

definition EncoderBlock_forward ::
    "('x::plus, 'm) EncoderBlock \<Rightarrow> 'x \<Rightarrow> 'm \<Rightarrow> error + 'x" where
  "EncoderBlock_forward self x src_mask =
     and_then (ResidualConnection_forward (eb_residual_connections self ! 0) x
                 (\<lambda>x. eb_self_attention_block self x x x src_mask))
       (\<lambda>x. ResidualConnection_forward (eb_residual_connections self ! 1) x
                 (eb_feed_forward_block self))"

text \<open>
  \<^verbatim>\<open>
  class Encoder(nn.Module):
      def forward(self, x, mask):
          for layer in self.layers:
              x = layer(x, mask)
          return self.norm(x)
  \<close>
\<close>

record ('x, 'm) Encoder =
  enc_layers :: "('x, 'm) EncoderBlock list"
  enc_norm :: "'x \<Rightarrow> 'x"

primrec Encoder_layers ::
    "('x::plus, 'm) EncoderBlock list \<Rightarrow> 'x \<Rightarrow> 'm \<Rightarrow> error + 'x" where
  "Encoder_layers [] x msk = Inr x"
| "Encoder_layers (layer # layers) x msk =
     and_then (EncoderBlock_forward layer x msk) (\<lambda>x. Encoder_layers layers x msk)"

definition Encoder_forward ::
    "('x::plus, 'm) Encoder \<Rightarrow> 'x \<Rightarrow> 'm \<Rightarrow> error + 'x" where
  "Encoder_forward self x msk =
     and_then (Encoder_layers (enc_layers self) x msk) (\<lambda>x. Inr (enc_norm self x))"

text \<open>
  \<^verbatim>\<open>
  class DecoderBlock(nn.Module):
      def forward(self, x, encoder_output, src_mask, tgt_mask):
          x = self.residual_connections[0](x, lambda x: self.self_attention_block(x,x,x, tgt_mask))
          x = self.residual_connections[1](x, lambda x: self.cross_attention_block(x, encoder_output, encoder_output, src_mask))
          x = self.residual_connections[2](x, self.feed_forward_block)
          return x
  \<close>
\<close>

record ('x, 'm) DecoderBlock =
  self_attention_block :: "'x \<Rightarrow> 'x \<Rightarrow> 'x \<Rightarrow> 'm \<Rightarrow> error + 'x"
  cross_attention_block :: "'x \<Rightarrow> 'x \<Rightarrow> 'x \<Rightarrow> 'm \<Rightarrow> error + 'x"
  feed_forward_block :: "'x \<Rightarrow> error + 'x"
  residual_connections :: "'x ResidualConnection list"

definition DecoderBlock_forward ::
    "('x::plus, 'm) DecoderBlock \<Rightarrow> 'x \<Rightarrow> 'x \<Rightarrow> 'm \<Rightarrow> 'm \<Rightarrow> error + 'x" where
  "DecoderBlock_forward self x encoder_output src_mask tgt_mask =
     and_then (ResidualConnection_forward (residual_connections self ! 0) x
                 (\<lambda>x. self_attention_block self x x x tgt_mask))
       (\<lambda>x. and_then (ResidualConnection_forward (residual_connections self ! 1) x
                 (\<lambda>x. cross_attention_block self x encoder_output encoder_output src_mask))
         (\<lambda>x. ResidualConnection_forward (residual_connections self ! 2) x
                 (feed_forward_block self)))"

text \<open>
  \<^verbatim>\<open>
  class Decoder(nn.Module):
      def forward(self, x, encoder_output, src_mask, tgt_mask):
          for layer in self.layers:
              x = layer(x, encoder_output, src_mask, tgt_mask)
          return self.norm(x)
  \<close>
\<close>

record ('x, 'm) Decoder =
  dec_layers :: "('x, 'm) DecoderBlock list"
  dec_norm :: "'x \<Rightarrow> 'x"

primrec Decoder_layers ::
    "('x::plus, 'm) DecoderBlock list \<Rightarrow> 'x \<Rightarrow> 'x \<Rightarrow> 'm \<Rightarrow> 'm \<Rightarrow> error + 'x" where
  "Decoder_layers [] x encoder_output src_mask tgt_mask = Inr x"
| "Decoder_layers (layer # layers) x encoder_output src_mask tgt_mask =
     and_then (DecoderBlock_forward layer x encoder_output src_mask tgt_mask)
       (\<lambda>x. Decoder_layers layers x encoder_output src_mask tgt_mask)"

definition Decoder_forward ::
    "('x::plus, 'm) Decoder \<Rightarrow> 'x \<Rightarrow> 'x \<Rightarrow> 'm \<Rightarrow> 'm \<Rightarrow> error + 'x" where
  "Decoder_forward self x encoder_output src_mask tgt_mask =
     and_then (Decoder_layers (dec_layers self) x encoder_output src_mask tgt_mask)
       (\<lambda>x. Inr (dec_norm self x))"

text \<open>
  \<^verbatim>\<open>
  class Transformer(nn.Module):
      def encode(self, src, src_mask):
          src = self.src_embed(src)
          src = self.src_pos(src)
          return self.encoder(src, src_mask)
      def decode(self, encoder_output, src_mask, tgt, tgt_mask):
          tgt = self.tgt_embed(tgt)
          tgt = self.tgt_pos(tgt)
          return self.decoder(tgt, encoder_output, src_mask, tgt_mask)
      def project(self, x):
          return self.projection_layer(x)
  \<close>
  \<open>'i\<close> is the type of tensors of token ids, \<open>'p\<close> that of the projection.
\<close>

record ('i, 'x, 'm, 'p) Transformer =
  encoder :: "('x, 'm) Encoder"
  decoder :: "('x, 'm) Decoder"
  src_embed :: "'i \<Rightarrow> error + 'x"
  tgt_embed :: "'i \<Rightarrow> error + 'x"
  src_pos :: "'x \<Rightarrow> error + 'x"
  tgt_pos :: "'x \<Rightarrow> error + 'x"
  projection_layer :: "'x \<Rightarrow> error + 'p"

definition Transformer_encode ::
    "('i, 'x::plus, 'm, 'p) Transformer \<Rightarrow> 'i \<Rightarrow> 'm \<Rightarrow> error + 'x" where
  "Transformer_encode self src src_mask =
     and_then (src_embed self src)
       (\<lambda>src. and_then (src_pos self src)
         (\<lambda>src. Encoder_forward (encoder self) src src_mask))"

definition Transformer_decode ::
    "('i, 'x::plus, 'm, 'p) Transformer \<Rightarrow> 'x \<Rightarrow> 'm \<Rightarrow> 'i \<Rightarrow> 'm \<Rightarrow> error + 'x" where
  "Transformer_decode self encoder_output src_mask tgt tgt_mask =
     and_then (tgt_embed self tgt)
       (\<lambda>tgt. and_then (tgt_pos self tgt)
         (\<lambda>tgt. Decoder_forward (decoder self) tgt encoder_output src_mask tgt_mask))"

definition Transformer_project :: "('i, 'x, 'm, 'p) Transformer \<Rightarrow> 'x \<Rightarrow> error + 'p" where
  "Transformer_project self x = projection_layer self x"

text \<open>A batch of the data loader: the four tensors the training loop reads.\<close>

record ('i, 'm) batch =
  batch_encoder_input :: 'i
  batch_decoder_input :: 'i
  batch_encoder_mask :: 'm
  batch_decoder_mask :: 'm

text \<open>
  The forward pass of one turn of the batch loop of \<^verbatim>\<open>train_model\<close>, the same lines
  in both notebooks:
  \<^verbatim>\<open>
  encoder_input = batch['encoder_input'].to(device)
  decoder_input = batch['decoder_input'].to(device)
  encoder_mask = batch['encoder_mask'].to(device)
  decoder_mask = batch['decoder_mask'].to(device)
  encoder_output = model.encode(encoder_input, encoder_mask)
  decoder_output = model.decode(encoder_output, decoder_mask, decoder_input, decoder_mask)
  proj_output = model.project(decoder_output)
  \<close>
\<close>

definition train_forward ::
    "('i, 'x::plus, 'm, 'p) Transformer \<Rightarrow> ('i, 'm) batch \<Rightarrow> error + 'p" where
  "train_forward model b =
     (let encoder_input = batch_encoder_input b;
          decoder_input = batch_decoder_input b;
          encoder_mask = batch_encoder_mask b;
          decoder_mask = batch_decoder_mask b
      in and_then (Transformer_encode model encoder_input encoder_mask)
           (\<lambda>encoder_output.
              and_then (Transformer_decode model encoder_output decoder_mask decoder_input
                          decoder_mask)
                (\<lambda>decoder_output. Transformer_project model decoder_output)))"

text \<open>
  The batch loop \<^verbatim>\<open>for batch in batch_iterator\<close> of one epoch. The loss, its
  gradient and the step of the optimizer change the parameters of the model between
  two batches: they are the function \<open>update\<close>, from the model, the projection output
  and the batch to the next model. An exception in a forward pass ends the loop.
\<close>

primrec train_epoch ::
    "(('i, 'x::plus, 'm, 'p) Transformer \<Rightarrow> 'p \<Rightarrow> ('i, 'm) batch \<Rightarrow> ('i, 'x, 'm, 'p) Transformer)
       \<Rightarrow> ('i, 'x, 'm, 'p) Transformer \<Rightarrow> ('i, 'm) batch list
       \<Rightarrow> error + ('i, 'x, 'm, 'p) Transformer" where
  "train_epoch update model [] = Inr model"
| "train_epoch update model (b # bs) =
     and_then (train_forward model b)
       (\<lambda>proj_output. train_epoch update (update model proj_output b) bs)"

text \<open>
  The training pass in the words of the claim, to compare the code with: the decoder
  is run with one mask, the decoder mask of the batch, which every self-attention
  block and every cross-attention block of the decoder gets; the encoder mask reaches
  the encoder only.
\<close>

definition claimed_decoder_block ::
    "('x::plus, 'm) DecoderBlock \<Rightarrow> 'm \<Rightarrow> 'x \<Rightarrow> 'x \<Rightarrow> error + 'x" where
  "claimed_decoder_block blk target_mask encoder_output x =
     and_then (self_attention_block blk (rc_norm (residual_connections blk ! 0) x)
                 (rc_norm (residual_connections blk ! 0) x)
                 (rc_norm (residual_connections blk ! 0) x) target_mask)
       (\<lambda>a. let x1 = x + rc_dropout (residual_connections blk ! 0) a
             in and_then (cross_attention_block blk (rc_norm (residual_connections blk ! 1) x1)
                            encoder_output encoder_output target_mask)
                  (\<lambda>c. let x2 = x1 + rc_dropout (residual_connections blk ! 1) c
                        in and_then (feed_forward_block blk
                                       (rc_norm (residual_connections blk ! 2) x2))
                             (\<lambda>f. Inr (x2 + rc_dropout (residual_connections blk ! 2) f))))"

primrec claimed_decoder_layers ::
    "('x::plus, 'm) DecoderBlock list \<Rightarrow> 'm \<Rightarrow> 'x \<Rightarrow> 'x \<Rightarrow> error + 'x" where
  "claimed_decoder_layers [] target_mask encoder_output x = Inr x"
| "claimed_decoder_layers (blk # blks) target_mask encoder_output x =
     and_then (claimed_decoder_block blk target_mask encoder_output x)
       (claimed_decoder_layers blks target_mask encoder_output)"

definition claimed_train_forward ::
    "('i, 'x::plus, 'm, 'p) Transformer \<Rightarrow> ('i, 'm) batch \<Rightarrow> error + 'p" where
  "claimed_train_forward model b =
     and_then (Transformer_encode model (batch_encoder_input b) (batch_encoder_mask b))
       (\<lambda>encoder_output.
          and_then (tgt_embed model (batch_decoder_input b))
            (\<lambda>t. and_then (tgt_pos model t)
              (\<lambda>t. and_then (claimed_decoder_layers (dec_layers (decoder model))
                               (batch_decoder_mask b) encoder_output t)
                (\<lambda>x. projection_layer model (dec_norm (decoder model) x)))))"

primrec claimed_train_epoch ::
    "(('i, 'x::plus, 'm, 'p) Transformer \<Rightarrow> 'p \<Rightarrow> ('i, 'm) batch \<Rightarrow> ('i, 'x, 'm, 'p) Transformer)
       \<Rightarrow> ('i, 'x, 'm, 'p) Transformer \<Rightarrow> ('i, 'm) batch list
       \<Rightarrow> error + ('i, 'x, 'm, 'p) Transformer" where
  "claimed_train_epoch update model [] = Inr model"
| "claimed_train_epoch update model (b # bs) =
     and_then (claimed_train_forward model b)
       (\<lambda>proj_output. claimed_train_epoch update (update model proj_output b) bs)"

text \<open>
  A transformer on integers, with integers for masks, to run the training pass on:
  one encoder block and two decoder blocks; a self-attention block returns its query
  plus its mask, a cross-attention block its key times its mask, and an attention
  block raises for the mask 0. Nothing else changes a tensor or raises.
\<close>

definition rc_id :: "int ResidualConnection" where
  "rc_id = \<lparr> rc_dropout = (\<lambda>x. x), rc_norm = (\<lambda>x. x) \<rparr>"

definition toy_self_attention :: "int \<Rightarrow> int \<Rightarrow> int \<Rightarrow> int \<Rightarrow> error + int" where
  "toy_self_attention q k v m = (if m = 0 then Inl RuntimeError else Inr (q + m))"

definition toy_cross_attention :: "int \<Rightarrow> int \<Rightarrow> int \<Rightarrow> int \<Rightarrow> error + int" where
  "toy_cross_attention q k v m = (if m = 0 then Inl RuntimeError else Inr (k * m))"

definition toy_decoder_block :: "(int, int) DecoderBlock" where
  "toy_decoder_block = \<lparr> self_attention_block = toy_self_attention,
                         cross_attention_block = toy_cross_attention,
                         feed_forward_block = Inr,
                         residual_connections = [rc_id, rc_id, rc_id] \<rparr>"

definition toy_transformer :: "(int, int, int, int) Transformer" where
  "toy_transformer =
     \<lparr> encoder = \<lparr> enc_layers = [\<lparr> eb_self_attention_block = toy_self_attention,
                                    eb_feed_forward_block = Inr,
                                    eb_residual_connections = [rc_id, rc_id] \<rparr>],
                   enc_norm = (\<lambda>x. x) \<rparr>,
       decoder = \<lparr> dec_layers = [toy_decoder_block, toy_decoder_block], dec_norm = (\<lambda>x. x) \<rparr>,
       src_embed = Inr, tgt_embed = Inr,
       src_pos = Inr, tgt_pos = Inr,
       projection_layer = Inr \<rparr>"

definition toy_batch :: "(int, int) batch" where
  "toy_batch = \<lparr> batch_encoder_input = 1, batch_decoder_input = 2,
                 batch_encoder_mask = 5, batch_decoder_mask = 7 \<rparr>"

section \<open>Properties of the data set\<close>

lemma getitem_Inr_iff:
  "(\<exists>s. getitem self p = Inr s) \<longleftrightarrow>
     int (length (tokenizer_src self (fst p))) \<le> seq_len self - 2 \<and>
     int (length (tokenizer_tgt self (snd p))) \<le> seq_len self - 1"
  by (auto simp: getitem_def Let_def enc_num_padding_tokens_def dec_num_padding_tokens_def)

lemma causal_mask_length: "length (causal_mask n) = 1"
  by (simp add: causal_mask_def type_int_def triu_def ones_def)

lemma causal_mask_rows: "length (causal_mask n ! 0) = n"
  by (simp add: causal_mask_def type_int_def triu_def ones_def)

lemma causal_mask_cols: "i < n \<Longrightarrow> length (causal_mask n ! 0 ! i) = n"
  by (simp add: causal_mask_def type_int_def triu_def ones_def)

lemma causal_mask_nth: "i < n \<Longrightarrow> j < n \<Longrightarrow> causal_mask n ! 0 ! i ! j \<longleftrightarrow> j \<le> i"
  by (auto simp add: causal_mask_def type_int_def triu_def ones_def)

lemma and_broadcast_nth:
  assumes "length c = 1" "i < length (c ! 0)" "j < length (c ! 0 ! i)" "j < length (hd p)"
  shows "and_broadcast p c ! 0 ! i ! j = (hd p ! j) AND of_bool (c ! 0 ! i ! j)"
  using assms by (simp add: and_broadcast_def)

lemma getitem_InrD:
  assumes "getitem self p = Inr s"
  shows "encoder_input s = [sos_token self] @ tokenizer_src self (fst p) @ [eos_token self]
            @ replicate (nat (enc_num_padding_tokens self (tokenizer_src self (fst p)))) (pad_token self)"
    and "decoder_input s = [sos_token self] @ tokenizer_tgt self (snd p)
            @ replicate (nat (dec_num_padding_tokens self (tokenizer_tgt self (snd p)))) (pad_token self)"
    and "encoder_mask s = padding_mask (encoder_input s) (pad_token self)"
    and "decoder_mask s = and_broadcast (padding_mask (decoder_input s) (pad_token self))
                                        (causal_mask (length (decoder_input s)))"
    and "int (length (encoder_input s)) = seq_len self"
    and "int (length (decoder_input s)) = seq_len self"
    and "int (length (label s)) = seq_len self"
  using assms by (auto simp: getitem_def Let_def split: if_splits)

text \<open>
  Claim C5. For every sample \<^verbatim>\<open>__getitem__\<close> returns, the encoder mask is the padding
  mask alone (1 exactly at the positions of the encoder input that do not hold PAD), and
  the decoder mask, of shape \<open>(1, n, n)\<close> for a decoder input of length \<open>n\<close>, is at
  every entry \<open>(i, j)\<close> the AND of the padding mask at \<open>j\<close> (1 exactly when the decoder
  input does not hold PAD there) with the causal mask at \<open>(i, j)\<close>, which is true exactly
  when \<open>j \<le> i\<close>.
\<close>

theorem decoder_mask_padding_and_causal:
  assumes "getitem self p = Inr s"
  shows "encoder_mask s = [map (\<lambda>x. if x \<noteq> pad_token self then 1 else 0) (encoder_input s)] \<and>
         length (decoder_mask s) = 1 \<and>
         length (decoder_mask s ! 0) = length (decoder_input s) \<and>
         (\<forall>i < length (decoder_input s). length (decoder_mask s ! 0 ! i) = length (decoder_input s)) \<and>
         (\<forall>i < length (decoder_input s). \<forall>j < length (decoder_input s).
            (causal_mask (length (decoder_input s)) ! 0 ! i ! j \<longleftrightarrow> j \<le> i) \<and>
            decoder_mask s ! 0 ! i ! j =
              (padding_mask (decoder_input s) (pad_token self) ! 0 ! j)
                AND of_bool (causal_mask (length (decoder_input s)) ! 0 ! i ! j) \<and>
            padding_mask (decoder_input s) (pad_token self) ! 0 ! j = of_bool (decoder_input s ! j \<noteq> pad_token self) \<and>
            decoder_mask s ! 0 ! i ! j = of_bool (decoder_input s ! j \<noteq> pad_token self \<and> j \<le> i))"
proof -
  let ?n = "length (decoder_input s)"
  note d = getitem_InrD[OF assms]
  have em: "encoder_mask s = [map (\<lambda>x. if x \<noteq> pad_token self then 1 else 0) (encoder_input s)]"
    by (simp add: d(3) padding_mask_def of_bool_def)
  have l1: "length (decoder_mask s) = 1"
    by (simp add: d(4) and_broadcast_def causal_mask_length)
  have l2: "length (decoder_mask s ! 0) = ?n"
    using causal_mask_length[of ?n] causal_mask_rows[of ?n]
    by (simp add: d(4) and_broadcast_def)
  have l3: "length (decoder_mask s ! 0 ! i) = ?n" if "i < ?n" for i
    using that causal_mask_length[of ?n] causal_mask_rows[of ?n] causal_mask_cols[of i ?n]
    by (simp add: d(4) and_broadcast_def padding_mask_def)
  have e: "(causal_mask ?n ! 0 ! i ! j \<longleftrightarrow> j \<le> i) \<and>
            decoder_mask s ! 0 ! i ! j =
              (padding_mask (decoder_input s) (pad_token self) ! 0 ! j)
                AND of_bool (causal_mask ?n ! 0 ! i ! j) \<and>
            padding_mask (decoder_input s) (pad_token self) ! 0 ! j = of_bool (decoder_input s ! j \<noteq> pad_token self) \<and>
            decoder_mask s ! 0 ! i ! j = of_bool (decoder_input s ! j \<noteq> pad_token self \<and> j \<le> i)"
    if "i < ?n" "j < ?n" for i j
  proof -
    have c: "causal_mask ?n ! 0 ! i ! j \<longleftrightarrow> j \<le> i" by (rule causal_mask_nth[OF that])
    have p: "padding_mask (decoder_input s) (pad_token self) ! 0 ! j = of_bool (decoder_input s ! j \<noteq> pad_token self)"
      using that by (simp add: padding_mask_def)
    have a: "decoder_mask s ! 0 ! i ! j =
              (padding_mask (decoder_input s) (pad_token self) ! 0 ! j)
                AND of_bool (causal_mask ?n ! 0 ! i ! j)"
      unfolding d(4)
      using and_broadcast_nth[of "causal_mask ?n" i j "padding_mask (decoder_input s) (pad_token self)"]
        that causal_mask_length[of ?n] causal_mask_rows[of ?n] causal_mask_cols[of i ?n]
      by (simp add: padding_mask_def)
    have "decoder_mask s ! 0 ! i ! j = of_bool (decoder_input s ! j \<noteq> pad_token self \<and> j \<le> i)"
      unfolding a p c by (simp add: of_bool_def)
    with c p a show ?thesis by blast
  qed
  show ?thesis using em l1 l2 l3 e by blast
qed


text \<open>
  Claim C3. With \<open>seq_len = 10\<close> and a source sentence whose tokens are \<open>[7, 9]\<close>, the
  number of encoder padding tokens is 6, the call returns a sample whenever the target
  fits, and the encoder input of a returned sample is SOS, 7, 9, EOS and six PADs, of
  length 10. Whenever the source has more than \<open>seq_len - 2\<close> tokens or the target more
  than \<open>seq_len - 1\<close>, in particular for nine source tokens with \<open>seq_len = 10\<close>, the
  call raises the ValueError and returns nothing truncated.
\<close>

theorem getitem_padding_and_length_error:
  "(seq_len self = 10 \<and> tokenizer_src self src = [7, 9] \<longrightarrow>
       enc_num_padding_tokens self (tokenizer_src self src) = 6 \<and>
       (int (length (tokenizer_tgt self tgt)) \<le> 9 \<longrightarrow> (\<exists>s. getitem self (src, tgt) = Inr s)) \<and>
       (\<forall>s. getitem self (src, tgt) = Inr s \<longrightarrow>
          encoder_input s = [sos_token self, 7, 9, eos_token self, pad_token self, pad_token self,
                             pad_token self, pad_token self, pad_token self, pad_token self] \<and>
          length (encoder_input s) = 10))
   \<and> (int (length (tokenizer_src self src)) > seq_len self - 2 \<or>
      int (length (tokenizer_tgt self tgt)) > seq_len self - 1
        \<longrightarrow> getitem self (src, tgt) = Inl ValueError)
   \<and> (seq_len self = 10 \<and> length (tokenizer_src self src) = 9
        \<longrightarrow> getitem self (src, tgt) = Inl ValueError)"
proof (intro conjI impI allI)
  assume a: "seq_len self = 10 \<and> tokenizer_src self src = [7, 9]"
  show "enc_num_padding_tokens self (tokenizer_src self src) = 6"
    using a by (simp add: enc_num_padding_tokens_def)
  show "\<exists>s. getitem self (src, tgt) = Inr s" if "int (length (tokenizer_tgt self tgt)) \<le> 9"
    using a that getitem_Inr_iff[of self "(src, tgt)"] by simp
  fix s assume g: "getitem self (src, tgt) = Inr s"
  have n: "nat (enc_num_padding_tokens self (tokenizer_src self src)) = 6"
    using a by (simp add: enc_num_padding_tokens_def)
  have r: "replicate 6 x = [x, x, x, x, x, x]" for x :: int
    by (simp add: numeral_eq_Suc)
  show "encoder_input s = [sos_token self, 7, 9, eos_token self, pad_token self, pad_token self,
                             pad_token self, pad_token self, pad_token self, pad_token self]"
    using getitem_InrD(1)[OF g] a n r by simp
  then show "length (encoder_input s) = 10" by simp
next
  assume "int (length (tokenizer_src self src)) > seq_len self - 2 \<or>
      int (length (tokenizer_tgt self tgt)) > seq_len self - 1"
  then show "getitem self (src, tgt) = Inl ValueError"
    by (auto simp: getitem_def Let_def enc_num_padding_tokens_def dec_num_padding_tokens_def)
next
  assume "seq_len self = 10 \<and> length (tokenizer_src self src) = 9"
  then show "getitem self (src, tgt) = Inl ValueError"
    by (auto simp: getitem_def Let_def enc_num_padding_tokens_def dec_num_padding_tokens_def)
qed

lemma getitem_ds10_short:
  "getitem ds10 (''a b'', ''c d'') =
     Inr \<lparr> encoder_input = [2, 7, 9, 3, 1, 1, 1, 1, 1, 1],
           decoder_input = [2, 5, 6, 1, 1, 1, 1, 1, 1, 1],
           encoder_mask = padding_mask [2, 7, 9, 3, 1, 1, 1, 1, 1, 1] 1,
           decoder_mask = and_broadcast (padding_mask [2, 5, 6, 1, 1, 1, 1, 1, 1, 1] 1) (causal_mask 10),
           label = [5, 6, 3, 1, 1, 1, 1, 1, 1, 1],
           src_text = ''a b'', tgt_text = ''c d'' \<rparr>"
  by (simp add: getitem_def ds10_def Let_def enc_num_padding_tokens_def dec_num_padding_tokens_def
        numeral_eq_Suc)

theorem getitem_padding_and_length_error_witness:
  "seq_len ds10 = 10 \<and> tokenizer_src ds10 ''a b'' = [7, 9] \<and>
   int (length (tokenizer_tgt ds10 ''c d'')) \<le> 9 \<and>
   enc_num_padding_tokens ds10 (tokenizer_src ds10 ''a b'') = 6 \<and>
   (\<exists>s. getitem ds10 (''a b'', ''c d'') = Inr s \<and>
        encoder_input s = [2, 7, 9, 3, 1, 1, 1, 1, 1, 1] \<and> length (encoder_input s) = 10) \<and>
   length (tokenizer_src ds10 ''a long sentence'') = 9 \<and>
   int (length (tokenizer_src ds10 ''a long sentence'')) > seq_len ds10 - 2 \<and>
   getitem ds10 (''a long sentence'', ''c d'') = Inl ValueError"
proof -
  have h1: "seq_len ds10 = 10 \<and> tokenizer_src ds10 ''a b'' = [7, 9]"
    by (simp add: ds10_def)
  have h2: "int (length (tokenizer_tgt ds10 ''c d'')) \<le> 9"
    by (simp add: ds10_def)
  have h3: "seq_len ds10 = 10 \<and> length (tokenizer_src ds10 ''a long sentence'') = 9"
    by (simp add: ds10_def)
  have h4: "int (length (tokenizer_src ds10 ''a long sentence'')) > seq_len ds10 - 2"
    by (simp add: ds10_def)
  note t1 = getitem_padding_and_length_error[of ds10 "''a b''" "''c d''"]
  note t2 = getitem_padding_and_length_error[of ds10 "''a long sentence''" "''c d''"]
  have p: "sos_token ds10 = 2 \<and> eos_token ds10 = 3 \<and> pad_token ds10 = 1"
    by (simp add: ds10_def)
  from t1 h1 h2 obtain s where s: "getitem ds10 (''a b'', ''c d'') = Inr s" by blast
  with t1 h1 p have "encoder_input s = [2, 7, 9, 3, 1, 1, 1, 1, 1, 1] \<and> length (encoder_input s) = 10"
    by simp
  with s have e: "\<exists>s. getitem ds10 (''a b'', ''c d'') = Inr s \<and>
        encoder_input s = [2, 7, 9, 3, 1, 1, 1, 1, 1, 1] \<and> length (encoder_input s) = 10" by blast
  from t1 h1 have n: "enc_num_padding_tokens ds10 (tokenizer_src ds10 ''a b'') = 6" by blast
  from t2 h3 have v: "getitem ds10 (''a long sentence'', ''c d'') = Inl ValueError" by blast
  show ?thesis using h1 h2 h3 h4 n e v by blast
qed

lemma getitem_ds4:
  "getitem ds4 ([], []) =
     Inr \<lparr> encoder_input = [2, 7, 3, 1],
           decoder_input = [2, 8, 1, 1],
           encoder_mask = [[1, 1, 1, 0]],
           decoder_mask = [[[1, 0, 0, 0], [1, 1, 0, 0], [1, 1, 0, 0], [1, 1, 0, 0]]],
           label = [8, 3, 1, 1],
           src_text = [], tgt_text = [] \<rparr>"
  by (simp add: getitem_def ds4_def Let_def enc_num_padding_tokens_def dec_num_padding_tokens_def
        numeral_eq_Suc padding_mask_def and_broadcast_def causal_mask_def type_int_def triu_def ones_def upt_rec)

theorem decoder_mask_padding_and_causal_witness:
  "\<exists>s. getitem ds4 ([], []) = Inr s \<and>
       decoder_input s = [2, 8, 1, 1] \<and> pad_token ds4 = 1 \<and>
       encoder_mask s = [map (\<lambda>x. if x \<noteq> pad_token ds4 then 1 else 0) (encoder_input s)] \<and>
       length (decoder_mask s) = 1 \<and> length (decoder_mask s ! 0) = 4 \<and>
       decoder_mask s ! 0 ! 1 ! 1 = 1 \<and>
       decoder_mask s ! 0 ! 1 ! 2 = 0 \<and>
       decoder_mask s ! 0 ! 3 ! 2 = 0 \<and>
       \<not> causal_mask 4 ! 0 ! 1 ! 2"
proof -
  let ?s = "\<lparr> encoder_input = [2, 7, 3, 1],
           decoder_input = [2, 8, 1, 1],
           encoder_mask = [[1, 1, 1, 0]],
           decoder_mask = [[[1, 0, 0, 0], [1, 1, 0, 0], [1, 1, 0, 0], [1, 1, 0, 0]]],
           label = [8, 3, 1, 1],
           src_text = [], tgt_text = [] \<rparr>"
  note t = decoder_mask_padding_and_causal[OF getitem_ds4]
  have p: "pad_token ds4 = 1" by (simp add: ds4_def)
  have n: "length (decoder_input ?s) = 4" by simp
  from t have a: "encoder_mask ?s = [map (\<lambda>x. if x \<noteq> pad_token ds4 then 1 else 0) (encoder_input ?s)]"
    by blast
  from t have b: "length (decoder_mask ?s) = 1 \<and> length (decoder_mask ?s ! 0) = 4"
    unfolding n by blast
  from t have q: "\<forall>i<4. \<forall>j<4.
      (causal_mask 4 ! 0 ! i ! j \<longleftrightarrow> j \<le> i) \<and>
      decoder_mask ?s ! 0 ! i ! j = of_bool (decoder_input ?s ! j \<noteq> pad_token ds4 \<and> j \<le> i)"
    unfolding n by blast
  have q': "causal_mask 4 ! 0 ! i ! j = (j \<le> i) \<and>
      decoder_mask ?s ! 0 ! i ! j = of_bool (decoder_input ?s ! j \<noteq> pad_token ds4 \<and> j \<le> i)"
    if "i < 4" "j < 4" for i j
    using q that by blast
  have c11: "decoder_mask ?s ! 0 ! 1 ! 1 = 1"
    using q'[of 1 1] p by simp
  have c12: "decoder_mask ?s ! 0 ! 1 ! 2 = 0"
    using q'[of 1 2] p by simp
  have c32: "decoder_mask ?s ! 0 ! 3 ! 2 = 0"
    using q'[of 3 2] p by simp
  have m12: "\<not> causal_mask 4 ! 0 ! 1 ! 2"
    using q'[of 1 2] by simp
  show ?thesis
    using getitem_ds4 p a b c11 c12 c32 m12 by simp
qed


section \<open>Properties of the input embeddings\<close>

lemma embedding_lookup_Inr:
  assumes "\<forall>row \<in> set x. \<forall>t \<in> set row. 0 \<le> t \<and> t < int (length w)"
  shows "embedding_lookup w x = Inr (map (map (\<lambda>t. w ! nat t)) x)"
  using assms by (simp add: embedding_lookup_def list_all_iff)

text \<open>
  Claim C6. For a token-id tensor of shape (batch, seq_len) whose ids all lie in
  \<open>[0, vocab_size)\<close>, \<^verbatim>\<open>InputEmbeddings.forward\<close> returns a tensor of shape
  (batch, seq_len, d_model), and each of its vectors is the embedding row of the id at
  that place multiplied by \<open>sqrt d_model\<close>.
\<close>

theorem InputEmbeddings_forward_shape_and_scale:
  assumes "InputEmbeddings_shaped self"
      and "length x = batch"
      and "\<forall>row \<in> set x. length row = L"
      and "\<forall>row \<in> set x. \<forall>t \<in> set row. 0 \<le> t \<and> t < int (vocab_size self)"
  shows "\<exists>y. InputEmbeddings_forward self x = Inr y \<and> length y = batch \<and>
          (\<forall>b < batch. length (y ! b) = L \<and>
             (\<forall>t < L. length (y ! b ! t) = d_model self \<and>
                      y ! b ! t = map (\<lambda>v. v * sqrt (real (d_model self)))
                                      (embedding self ! nat (x ! b ! t))))"
proof -
  let ?w = "embedding self"
  let ?y = "map (map (map (\<lambda>v. v * sqrt (real (d_model self)))))
              (map (map (\<lambda>t. ?w ! nat t)) x)"
  from assms(1) have len: "length ?w = vocab_size self"
    and rows: "\<forall>row \<in> set ?w. length row = d_model self"
    by (simp_all add: InputEmbeddings_shaped_def list_all_iff)
  have look: "embedding_lookup ?w x = Inr (map (map (\<lambda>t. ?w ! nat t)) x)"
    using assms(4) len by (intro embedding_lookup_Inr) simp
  have fwd: "InputEmbeddings_forward self x = Inr ?y"
    by (simp add: InputEmbeddings_forward_def look)
  have ly: "length ?y = batch" using assms(2) by simp
  have ent: "length (?y ! b) = L \<and>
             (\<forall>t < L. length (?y ! b ! t) = d_model self \<and>
                      ?y ! b ! t = map (\<lambda>v. v * sqrt (real (d_model self))) (?w ! nat (x ! b ! t)))"
    if b: "b < batch" for b
  proof -
    have xb: "x ! b \<in> set x" using b assms(2) by simp
    then have lb: "length (x ! b) = L" using assms(3) by blast
    have yb: "?y ! b = map (map (\<lambda>v. v * sqrt (real (d_model self)))) (map (\<lambda>t. ?w ! nat t) (x ! b))"
      using b assms(2) by simp
    have "length (?y ! b ! t) = d_model self \<and>
          ?y ! b ! t = map (\<lambda>v. v * sqrt (real (d_model self))) (?w ! nat (x ! b ! t))"
      if t: "t < L" for t
    proof -
      have "x ! b ! t \<in> set (x ! b)" using t lb by simp
      with xb assms(4) have r: "0 \<le> x ! b ! t \<and> x ! b ! t < int (vocab_size self)" by blast
      then have "nat (x ! b ! t) < length ?w" using len by linarith
      then have "?w ! nat (x ! b ! t) \<in> set ?w" by simp
      with rows have lr: "length (?w ! nat (x ! b ! t)) = d_model self" by blast
      have e: "?y ! b ! t = map (\<lambda>v. v * sqrt (real (d_model self))) (?w ! nat (x ! b ! t))"
        unfolding yb using t lb by simp
      show ?thesis unfolding e using lr by simp
    qed
    then show ?thesis using lb unfolding yb by simp
  qed
  show ?thesis using fwd ly ent by blast
qed

theorem InputEmbeddings_forward_shape_and_scale_witness:
  "InputEmbeddings_shaped emb23 \<and> length [[0, 2::int]] = 1 \<and>
   (\<exists>y. InputEmbeddings_forward emb23 [[0, 2]] = Inr y \<and> length y = 1 \<and>
        length (y ! 0) = 2 \<and> length (y ! 0 ! 1) = 2 \<and>
        y ! 0 ! 1 = [5 * sqrt 2, 6 * sqrt 2])"
proof -
  have s: "InputEmbeddings_shaped emb23"
    by (simp add: InputEmbeddings_shaped_def emb23_def)
  have h: "\<forall>row \<in> set [[0, 2::int]]. length row = 2"
          "\<forall>row \<in> set [[0, 2::int]]. \<forall>t \<in> set row. 0 \<le> t \<and> t < int (vocab_size emb23)"
    by (simp_all add: emb23_def)
  from InputEmbeddings_forward_shape_and_scale[OF s refl h]
  obtain y where y: "InputEmbeddings_forward emb23 [[0, 2]] = Inr y" "length y = 1"
     and e: "\<forall>b < 1. length (y ! b) = 2 \<and>
             (\<forall>t < 2. length (y ! b ! t) = d_model emb23 \<and>
                      y ! b ! t = map (\<lambda>v. v * sqrt (real (d_model emb23)))
                                      (embedding emb23 ! nat ([[0, 2]] ! b ! t)))"
    by auto
  from e have e0: "length (y ! 0) = 2" by simp
  have e': "length (y ! b ! t) = d_model emb23 \<and>
       y ! b ! t = map (\<lambda>v. v * sqrt (real (d_model emb23))) (embedding emb23 ! nat ([[0, 2]] ! b ! t))"
    if "b < 1" "t < 2" for b t
    using e that by blast
  from e'[of 0 1]
  have e1: "length (y ! 0 ! 1) = 2 \<and> y ! 0 ! 1 = [5 * sqrt 2, 6 * sqrt 2]"
    by (simp add: emb23_def)
  show ?thesis using s y e0 e1 by auto
qed

section \<open>Properties of the positional encoding\<close>

lemma angle_eq:
  assumes "dm \<noteq> 0"
  shows "real pos * exp (real (2 * i) * (- ln 10000 / real dm))
           = real pos / (10000 powr (real (2 * i) / real dm))"
proof -
  have "exp (real (2 * i) * (- ln 10000 / real dm)) = exp (- (real (2 * i) / real dm * ln 10000))"
    by (simp add: field_simps)
  also have "\<dots> = 1 / exp (real (2 * i) / real dm * ln 10000)"
    by (simp add: exp_minus divide_inverse)
  also have "\<dots> = 1 / (10000 powr (real (2 * i) / real dm))"
    by (simp add: powr_def)
  finally show ?thesis by simp
qed

lemma set_cols_nth:
  assumes "set_cols start ncols t n_src src = Inr t'" "p < length t" "length src = length t" "c < ncols"
  shows "t' ! p ! c = (if start \<le> c \<and> even (c - start)
                        then src ! p ! (if n_src = 1 then 0 else (c - start) div 2)
                        else t ! p ! c)"
  using assms by (auto simp: set_cols_def Let_def split: if_splits)

lemma set_cols_shape:
  assumes "set_cols start ncols t n_src src = Inr t'" "length src = length t"
  shows "length t' = length t" and "p < length t \<Longrightarrow> length (t' ! p) = ncols"
  using assms by (auto simp: set_cols_def Let_def split: if_splits)

lemma PositionalEncoding_init_InrD:
  assumes "PositionalEncoding_init dm sl dr = Inr m"
  obtains pe1 pe2 where
    "dm \<noteq> 0"
    "set_cols 0 dm (replicate sl (replicate dm 0)) (length (arange2 dm))
        (map (map sin) (map (\<lambda>prow. map (\<lambda>d. hd prow * d)
            (map (\<lambda>k. exp (real k * (- ln 10000 / real dm))) (arange2 dm))) (map (\<lambda>p. [real p]) [0..<sl]))) = Inr pe1"
    "set_cols 1 dm pe1 (length (arange2 dm))
        (map (map cos) (map (\<lambda>prow. map (\<lambda>d. hd prow * d)
            (map (\<lambda>k. exp (real k * (- ln 10000 / real dm))) (arange2 dm))) (map (\<lambda>p. [real p]) [0..<sl]))) = Inr pe2"
    "pe m = [pe2]"
  using assms
  by (auto simp: PositionalEncoding_init_def div_term_def Let_def split: if_splits sum.splits)

lemma PositionalEncoding_init_even:
  assumes "even dm" "dm \<noteq> 0" "0 \<le> dr" "dr \<le> 1"
  shows "\<exists>m. PositionalEncoding_init dm sl dr = Inr m"
proof -
  from assms have "(dm + 1) div 2 = dm div 2" by presburger
  then show ?thesis
    using assms(3,4)
    by (simp add: PositionalEncoding_init_def div_term_def Let_def set_cols_def arange2_def assms(2))
qed

lemma PositionalEncoding_init_bad_dropout:
  assumes "dr < 0 \<or> 1 < dr"
  shows "PositionalEncoding_init dm sl dr = Inl ValueError"
  using assms by (auto simp: PositionalEncoding_init_def)

lemma PositionalEncoding_init_entries:
  assumes init: "PositionalEncoding_init dm sl dr = Inr m" and pos: "pos < sl" and i: "i < dm div 2"
  shows "pe m ! 0 ! pos ! (2 * i) = sin (real pos / (10000 powr (real (2 * i) / real dm)))"
    and "pe m ! 0 ! pos ! (2 * i + 1) = cos (real pos / (10000 powr (real (2 * i) / real dm)))"
proof -
  let ?dt = "map (\<lambda>k. exp (real k * (- ln 10000 / real dm))) (arange2 dm)"
  let ?angle = "map (\<lambda>prow. map (\<lambda>d. hd prow * d) ?dt) (map (\<lambda>p. [real p]) [0..<sl])"
  from init obtain pe1 pe2 where dm: "dm \<noteq> 0"
    and s1: "set_cols 0 dm (replicate sl (replicate dm 0)) (length (arange2 dm)) (map (map sin) ?angle) = Inr pe1"
    and s2: "set_cols 1 dm pe1 (length (arange2 dm)) (map (map cos) ?angle) = Inr pe2"
    and pe: "pe m = [pe2]"
    by (rule PositionalEncoding_init_InrD)
  have n: "length (arange2 dm) = (dm + 1) div 2" by (simp add: arange2_def)
  have i': "i < (dm + 1) div 2" using i by linarith
  have idx: "length (arange2 dm) = 1 \<longrightarrow> i = 0"
    using i n by auto
  have ang: "?angle ! pos ! i = real pos / (10000 powr (real (2 * i) / real dm))"
    using pos i' n angle_eq[OF dm, of pos i] by (simp add: arange2_def)
  have l1: "length pe1 = sl"
    using set_cols_shape(1)[OF s1] by simp
  have c0: "2 * i < dm" and c1: "2 * i + 1 < dm" using i by linarith+
  have la: "length (map (map sin) ?angle) = length (replicate sl (replicate dm (0::real)))"
    by simp
  have lb: "length (map (map cos) ?angle) = length pe1"
    by (simp add: l1)
  have a0: "pe1 ! pos ! (2 * i) =
        map (map sin) ?angle ! pos ! (if length (arange2 dm) = 1 then 0 else (2 * i - 0) div 2)"
    using set_cols_nth[OF s1 _ la c0, of pos] pos by simp
  have "(if length (arange2 dm) = 1 then 0 else (2 * i - 0) div 2) = i"
    using idx by auto
  with a0 have a1: "pe1 ! pos ! (2 * i) = map (map sin) ?angle ! pos ! i" by simp
  have a: "pe1 ! pos ! (2 * i) = sin (?angle ! pos ! i)"
    unfolding a1 using pos i' n by simp
  have ne: "\<not> (1 \<le> 2 * i \<and> even (2 * i - 1))"
    by (cases i) auto
  have b: "pe2 ! pos ! (2 * i) = pe1 ! pos ! (2 * i)"
    using set_cols_nth[OF s2 _ lb c0, of pos] pos l1 ne by simp
  have c0': "pe2 ! pos ! (2 * i + 1) =
        map (map cos) ?angle ! pos ! (if length (arange2 dm) = 1 then 0 else (2 * i + 1 - 1) div 2)"
    using set_cols_nth[OF s2 _ lb c1, of pos] pos l1 by simp
  have "(if length (arange2 dm) = 1 then 0 else (2 * i + 1 - 1) div 2) = i"
    using idx by auto
  with c0' have c1': "pe2 ! pos ! (2 * i + 1) = map (map cos) ?angle ! pos ! i" by simp
  have c: "pe2 ! pos ! (2 * i + 1) = cos (?angle ! pos ! i)"
    unfolding c1' using pos i' n by simp
  show "pe m ! 0 ! pos ! (2 * i) = sin (real pos / (10000 powr (real (2 * i) / real dm)))"
    unfolding pe using a b ang by simp
  show "pe m ! 0 ! pos ! (2 * i + 1) = cos (real pos / (10000 powr (real (2 * i) / real dm)))"
    unfolding pe using c ang by simp
qed

lemma PositionalEncoding_init_shape:
  assumes init: "PositionalEncoding_init dm sl dr = Inr m"
  shows "length (pe m) = 1" and "length (pe m ! 0) = sl"
    and "pos < sl \<Longrightarrow> length (pe m ! 0 ! pos) = dm"
proof -
  from init obtain pe1 pe2 where 
        s1: "set_cols 0 dm (replicate sl (replicate dm 0)) (length (arange2 dm))
        (map (map sin) (map (\<lambda>prow. map (\<lambda>d. hd prow * d)
            (map (\<lambda>k. exp (real k * (- ln 10000 / real dm))) (arange2 dm))) (map (\<lambda>p. [real p]) [0..<sl]))) = Inr pe1"
    and s2: "set_cols 1 dm pe1 (length (arange2 dm))
        (map (map cos) (map (\<lambda>prow. map (\<lambda>d. hd prow * d)
            (map (\<lambda>k. exp (real k * (- ln 10000 / real dm))) (arange2 dm))) (map (\<lambda>p. [real p]) [0..<sl]))) = Inr pe2"
    and pe: "pe m = [pe2]"
    by (rule PositionalEncoding_init_InrD)
  have l1: "length pe1 = sl" using set_cols_shape(1)[OF s1] by simp
  have l2: "length pe2 = sl" using set_cols_shape(1)[OF s2] l1 by simp
  show "length (pe m) = 1" by (simp add: pe)
  show "length (pe m ! 0) = sl" by (simp add: pe l2)
  show "length (pe m ! 0 ! pos) = dm" if "pos < sl"
    using set_cols_shape(2)[OF s2, of pos] l1 that by (simp add: pe)
qed

lemma PositionalEncoding_init_dropout:
  assumes "PositionalEncoding_init dm sl dr = Inr m" "PositionalEncoding_init dm sl dr' = Inr m'"
  shows "pe m' = pe m"
proof -
  let ?angle = "map (\<lambda>prow. map (\<lambda>d. hd prow * d)
            (map (\<lambda>k. exp (real k * (- ln 10000 / real dm))) (arange2 dm))) (map (\<lambda>p. [real p]) [0..<sl])"
  from assms(1) obtain p1 p2 where
        a1: "set_cols 0 dm (replicate sl (replicate dm 0)) (length (arange2 dm)) (map (map sin) ?angle) = Inr p1"
    and a2: "set_cols 1 dm p1 (length (arange2 dm)) (map (map cos) ?angle) = Inr p2"
    and a3: "pe m = [p2]"
    by (rule PositionalEncoding_init_InrD)
  from assms(2) obtain q1 q2 where
        b1: "set_cols 0 dm (replicate sl (replicate dm 0)) (length (arange2 dm)) (map (map sin) ?angle) = Inr q1"
    and b2: "set_cols 1 dm q1 (length (arange2 dm)) (map (map cos) ?angle) = Inr q2"
    and b3: "pe m' = [q2]"
    by (rule PositionalEncoding_init_InrD)
  from a1 b1 have "q1 = p1" by simp
  with a2 b2 have "q2 = p2" by simp
  with a3 b3 show ?thesis by simp
qed

text \<open>
  Claim C7. The table of a constructed \<^verbatim>\<open>PositionalEncoding\<close> has shape
  \<open>(1, seq_len, d_model)\<close> and depends on \<open>d_model\<close> and \<open>seq_len\<close> only (two
  constructions give the same table); for every \<open>pos < seq_len\<close> and \<open>i < d_model div 2\<close>
  its entry at \<open>(pos, 2 i)\<close> is \<open>sin (pos / 10000 ^ (2 i / d_model))\<close>, its entry at
  \<open>(pos, 2 i + 1)\<close> is the cosine of the same angle, and their squares add up to 1.
  The construction succeeds for every even \<open>d_model > 0\<close> and every dropout
  probability in \<open>[0, 1]\<close>; for a probability outside \<open>[0, 1]\<close> it raises ValueError.
\<close>

theorem PositionalEncoding_table:
  "(PositionalEncoding_init dm sl dr = Inr m \<longrightarrow>
      length (pe m) = 1 \<and> length (pe m ! 0) = sl \<and>
      (\<forall>dr' m'. PositionalEncoding_init dm sl dr' = Inr m' \<longrightarrow> pe m' = pe m) \<and>
      (\<forall>pos < sl. length (pe m ! 0 ! pos) = dm \<and>
         (\<forall>i < dm div 2.
            pe m ! 0 ! pos ! (2 * i) = sin (real pos / (10000 powr (real (2 * i) / real dm))) \<and>
            pe m ! 0 ! pos ! (2 * i + 1) = cos (real pos / (10000 powr (real (2 * i) / real dm))) \<and>
            (pe m ! 0 ! pos ! (2 * i))\<^sup>2 + (pe m ! 0 ! pos ! (2 * i + 1))\<^sup>2 = 1)))
   \<and> (even dm \<and> 0 < dm \<and> 0 \<le> dr \<and> dr \<le> 1 \<longrightarrow>
        (\<exists>m. PositionalEncoding_init dm sl dr = Inr m))
   \<and> (dr < 0 \<or> 1 < dr \<longrightarrow> PositionalEncoding_init dm sl dr = Inl ValueError)"
proof (intro conjI impI)
  assume init: "PositionalEncoding_init dm sl dr = Inr m"
  show "length (pe m) = 1" "length (pe m ! 0) = sl"
    using PositionalEncoding_init_shape(1,2)[OF init] by simp_all
  show "\<forall>dr' m'. PositionalEncoding_init dm sl dr' = Inr m' \<longrightarrow> pe m' = pe m"
    using PositionalEncoding_init_dropout[OF init] by blast
  show "\<forall>pos < sl. length (pe m ! 0 ! pos) = dm \<and>
         (\<forall>i < dm div 2.
            pe m ! 0 ! pos ! (2 * i) = sin (real pos / (10000 powr (real (2 * i) / real dm))) \<and>
            pe m ! 0 ! pos ! (2 * i + 1) = cos (real pos / (10000 powr (real (2 * i) / real dm))) \<and>
            (pe m ! 0 ! pos ! (2 * i))\<^sup>2 + (pe m ! 0 ! pos ! (2 * i + 1))\<^sup>2 = 1)"
  proof (intro allI impI conjI)
    fix pos assume pos: "pos < sl"
    show "length (pe m ! 0 ! pos) = dm"
      by (rule PositionalEncoding_init_shape(3)[OF init pos])
    fix i assume i: "i < dm div 2"
    note e = PositionalEncoding_init_entries[OF init pos i]
    show "pe m ! 0 ! pos ! (2 * i) = sin (real pos / (10000 powr (real (2 * i) / real dm)))"
      by (rule e(1))
    show "pe m ! 0 ! pos ! (2 * i + 1) = cos (real pos / (10000 powr (real (2 * i) / real dm)))"
      by (rule e(2))
    show "(pe m ! 0 ! pos ! (2 * i))\<^sup>2 + (pe m ! 0 ! pos ! (2 * i + 1))\<^sup>2 = 1"
      unfolding e by (rule sin_cos_squared_add)
  qed
next
  assume "even dm \<and> 0 < dm \<and> 0 \<le> dr \<and> dr \<le> 1"
  then show "\<exists>m. PositionalEncoding_init dm sl dr = Inr m"
    using PositionalEncoding_init_even[of dm dr sl] by simp
next
  assume "dr < 0 \<or> 1 < dr"
  then show "PositionalEncoding_init dm sl dr = Inl ValueError"
    by (rule PositionalEncoding_init_bad_dropout)
qed

lemma PositionalEncoding_init_2_2:
  "PositionalEncoding_init 2 2 (1 / 10) =
     Inr \<lparr> pe_d_model = 2, pe_seq_len = 2, pe_dropout = 1 / 10,
           pe = [[[0, 1], [sin 1, cos 1]]] \<rparr>"
proof -
  have u: "[0..<(2 + 1) div 2] = [0]" "[0..<2] = [0, 1]"
    by (simp_all add: upt_rec)
  have r: "replicate 2 (replicate 2 (0::real)) = [[0, 0], [0, 0]]"
    by (simp add: numeral_eq_Suc)
  show ?thesis
    by (simp add: PositionalEncoding_init_def div_term_def arange2_def set_cols_def Let_def u r)
qed

theorem PositionalEncoding_table_witness:
  "even (2 :: nat) \<and> 0 < (2 :: nat) \<and> (0 :: real) \<le> 1 / 10 \<and> (1 :: real) / 10 \<le> 1 \<and>
   (1 :: real) < 3 / 2 \<and> PositionalEncoding_init 2 2 (3 / 2) = Inl ValueError \<and>
   (\<exists>m. PositionalEncoding_init 2 2 (1 / 10) = Inr m \<and>
        length (pe m) = 1 \<and> length (pe m ! 0) = 2 \<and> length (pe m ! 0 ! 1) = 2 \<and>
        pe m ! 0 ! 1 ! 0 = sin 1 \<and> pe m ! 0 ! 1 ! 1 = cos 1 \<and>
        (pe m ! 0 ! 1 ! 0)\<^sup>2 + (pe m ! 0 ! 1 ! 1)\<^sup>2 = 1)"
proof -
  let ?m = "\<lparr> pe_d_model = 2, pe_seq_len = 2, pe_dropout = 1 / 10,
           pe = [[[0, 1], [sin 1, cos 1]]] \<rparr>"
  note t = PositionalEncoding_table[of 2 2 "1 / 10" ?m]
  from t PositionalEncoding_init_2_2
  have s: "length (pe ?m) = 1 \<and> length (pe ?m ! 0) = 2" by blast
  from t PositionalEncoding_init_2_2
  have q: "\<forall>pos < 2. length (pe ?m ! 0 ! pos) = 2 \<and>
         (\<forall>i < 2 div 2.
            pe ?m ! 0 ! pos ! (2 * i) = sin (real pos / (10000 powr (real (2 * i) / real 2))) \<and>
            pe ?m ! 0 ! pos ! (2 * i + 1) = cos (real pos / (10000 powr (real (2 * i) / real 2))) \<and>
            (pe ?m ! 0 ! pos ! (2 * i))\<^sup>2 + (pe ?m ! 0 ! pos ! (2 * i + 1))\<^sup>2 = 1)"
    by blast
  have q': "length (pe ?m ! 0 ! pos) = 2 \<and>
            pe ?m ! 0 ! pos ! (2 * i) = sin (real pos / (10000 powr (real (2 * i) / real 2))) \<and>
            pe ?m ! 0 ! pos ! (2 * i + 1) = cos (real pos / (10000 powr (real (2 * i) / real 2))) \<and>
            (pe ?m ! 0 ! pos ! (2 * i))\<^sup>2 + (pe ?m ! 0 ! pos ! (2 * i + 1))\<^sup>2 = 1"
    if "pos < 2" "i < 2 div 2" for pos i
    using q that by blast
  have e: "length (pe ?m ! 0 ! 1) = 2 \<and>
        pe ?m ! 0 ! 1 ! 0 = sin 1 \<and> pe ?m ! 0 ! 1 ! 1 = cos 1 \<and>
        (pe ?m ! 0 ! 1 ! 0)\<^sup>2 + (pe ?m ! 0 ! 1 ! 1)\<^sup>2 = 1"
    using q'[of 1 0] by simp
  have b: "(1 :: real) < 3 / 2" by simp
  note t' = PositionalEncoding_table[of 2 2 "3 / 2" ?m]
  from t' b have v: "PositionalEncoding_init 2 2 (3 / 2) = Inl ValueError" by blast
  show ?thesis
    using PositionalEncoding_init_2_2 s e v by simp
qed

section \<open>Properties of the layer normalization\<close>

lemma mean_1_3: "mean [1, 3] = 2"
  by (simp add: mean_def)

lemma std_1_3: "std [1, 3] = sqrt 2"
  by (simp add: std_def mean_1_3)

text \<open>
  Claim C2 says that \<^verbatim>\<open>LayerNormalization.forward\<close> returns
  \<open>alpha * normalized + bias\<close>, and the comment on \<^verbatim>\<open>self.alpha\<close> reads
  \<^verbatim>\<open># Multiplied\<close>. The code adds \<open>alpha\<close>: on the input \<open>[1, 3]\<close> (mean 2, standard
  deviation \<open>sqrt 2\<close>) the freshly constructed module, with \<open>alpha = 1\<close>, \<open>bias = 0\<close> and
  \<open>eps = 10\<^sup>-\<^sup>6\<close>, returns the normalized vector plus 1, while the stated formula
  gives the normalized vector itself.
\<close>

theorem LayerNormalization_forward_adds_alpha:
  "LayerNormalization_forward LayerNormalization_default [1, 3]
     = [1 + (- 1) / (sqrt 2 + 1 / 10 ^ 6), 1 + 1 / (sqrt 2 + 1 / 10 ^ 6)] \<and>
   LayerNormalization_spec LayerNormalization_default [1, 3]
     = [(- 1) / (sqrt 2 + 1 / 10 ^ 6), 1 / (sqrt 2 + 1 / 10 ^ 6)] \<and>
   LayerNormalization_forward LayerNormalization_default [1, 3]
     \<noteq> LayerNormalization_spec LayerNormalization_default [1, 3]"
  by (simp add: LayerNormalization_forward_def LayerNormalization_spec_def
        LayerNormalization_default_def LayerNormalization_init_def mean_1_3 std_1_3)

section \<open>Properties of the attention\<close>

lemma softmax_0_0: "softmax [0, 0] = [1 / 2, 1 / 2]"
  by (simp add: softmax_def)

lemma attention_mask_irrelevant:
  "attention query key val (Some m) dropout = attention query key val None dropout"
  by (simp add: attention_def Let_def)

lemma attention_example:
  "attention [[0], [0]] [[0], [0]] [[1], [2]] (Some [[1, 0], [1, 1]]) None
     = ([[3 / 2], [3 / 2]], [[1 / 2, 1 / 2], [1 / 2, 1 / 2]])"
  by (simp add: attention_def Let_def matmul_def transpose_m_def softmax_0_0 upt_rec)

text \<open>
  Claim C1 says that a score whose mask entry is zero is set to a large negative value
  before the softmax, so that its weight after the softmax is about 0. The code drops
  the value of \<^verbatim>\<open>masked_fill\<close>: \<^verbatim>\<open>attention\<close> with a mask returns what it returns
  with none. With the causal mask of size 2 and equal scores, the weight of query 0 on
  the later key 1 is \<open>1 / 2\<close>.
\<close>

theorem attention_mask_discarded:
  "attention query key val (Some m) dropout = attention query key val None dropout \<and>
   snd (attention [[0], [0]] [[0], [0]] [[1], [2]] (Some [[1, 0], [1, 1]]) None) ! 0 ! 1 = 1 / 2"
proof
  show "attention query key val (Some m) dropout = attention query key val None dropout"
    by (rule attention_mask_irrelevant)
  show "snd (attention [[0], [0]] [[0], [0]] [[1], [2]] (Some [[1, 0], [1, 1]]) None) ! 0 ! 1 = 1 / 2"
    unfolding attention_example by simp
qed

section \<open>Properties of the projection layer\<close>

lemma sum_list_exp_pos: "z \<noteq> [] \<Longrightarrow> 0 < sum_list (map exp (z :: real list))"
proof (induction z)
  case Nil
  then show ?case by simp
next
  case (Cons a z)
  have "0 < exp a" by simp
  moreover have "0 \<le> sum_list (map exp z)" by (rule sum_list_nonneg) auto
  ultimately have "0 < exp a + sum_list (map exp z)" by (rule add_pos_nonneg)
  then show ?case by simp
qed

lemma sum_list_map_divide: "sum_list (map (\<lambda>v. f v / c) z) = sum_list (map f z) / (c :: real)"
  by (induction z) (simp_all add: add_divide_distrib)

lemma exp_log_softmax_sums_to_1:
  assumes "z \<noteq> []"
  shows "sum_list (map exp (log_softmax z)) = 1"
proof -
  let ?S = "sum_list (map exp z)"
  have pos: "0 < ?S" by (rule sum_list_exp_pos[OF assms])
  have "map exp (log_softmax z) = map (\<lambda>v. exp v / ?S) z"
    using pos by (simp add: log_softmax_def exp_diff)
  then have "sum_list (map exp (log_softmax z)) = ?S / ?S"
    by (simp add: sum_list_map_divide)
  with pos show ?thesis by simp
qed

lemma Linear_apply_length:
  "Linear_shaped l \<Longrightarrow> length (Linear_apply l v) = out_features l"
  by (simp add: Linear_shaped_def Linear_apply_def)

text \<open>
  Claim C9. For a decoder output of shape (batch, L, d_model), the projection layer
  (a linear map onto a vocabulary of at least one entry) returns a tensor of shape
  (batch, L, vocab_size); each of its vectors is the log-softmax of the linear map of
  the input vector at that place, and the exponentials of its entries add up to 1.
\<close>

theorem ProjectionLayer_forward_log_softmax:
  assumes "Linear_shaped (proj self)"
      and "0 < out_features (proj self)"
      and "length x = batch"
      and "\<forall>row \<in> set x. length row = L"
      and "\<forall>row \<in> set x. \<forall>v \<in> set row. length v = in_features (proj self)"
  shows "\<exists>y. ProjectionLayer_forward self x = Inr y \<and> length y = batch \<and>
          (\<forall>b < batch. length (y ! b) = L \<and>
             (\<forall>t < L. length (y ! b ! t) = out_features (proj self) \<and>
                      y ! b ! t = log_softmax (Linear_apply (proj self) (x ! b ! t)) \<and>
                      sum_list (map exp (y ! b ! t)) = 1))"
proof -
  let ?f = "\<lambda>v. log_softmax (Linear_apply (proj self) v)"
  let ?y = "map (map ?f) x"
  have fwd: "ProjectionLayer_forward self x = Inr ?y"
    using assms(5) by (simp add: ProjectionLayer_forward_def list_all_iff)
  have ly: "length ?y = batch" using assms(3) by simp
  have lf: "length (?f v) = out_features (proj self)" for v
    using Linear_apply_length[OF assms(1)] by (simp add: log_softmax_def)
  have sf: "sum_list (map exp (?f v)) = 1" for v
  proof (rule exp_log_softmax_sums_to_1)
    have "length (Linear_apply (proj self) v) \<noteq> 0"
      using Linear_apply_length[OF assms(1), of v] assms(2) by simp
    then show "Linear_apply (proj self) v \<noteq> []" by simp
  qed
  have ent: "length (?y ! b) = L \<and>
             (\<forall>t < L. length (?y ! b ! t) = out_features (proj self) \<and>
                      ?y ! b ! t = ?f (x ! b ! t) \<and>
                      sum_list (map exp (?y ! b ! t)) = 1)"
    if b: "b < batch" for b
  proof -
    have "x ! b \<in> set x" using b assms(3) by simp
    then have lb: "length (x ! b) = L" using assms(4) by blast
    have yb: "?y ! b = map ?f (x ! b)" using b assms(3) by simp
    have "length (?y ! b ! t) = out_features (proj self) \<and>
          ?y ! b ! t = ?f (x ! b ! t) \<and> sum_list (map exp (?y ! b ! t)) = 1"
      if t: "t < L" for t
    proof -
      have e: "?y ! b ! t = ?f (x ! b ! t)" unfolding yb using t lb by simp
      show ?thesis unfolding e using lf sf by simp
    qed
    then show ?thesis using lb unfolding yb by simp
  qed
  show ?thesis using fwd ly ent by blast
qed

theorem ProjectionLayer_forward_log_softmax_witness:
  "Linear_shaped (proj proj23) \<and> 0 < out_features (proj proj23) \<and>
   (\<exists>y. ProjectionLayer_forward proj23 [[[0, 0]]] = Inr y \<and> length y = 1 \<and>
        length (y ! 0) = 1 \<and> length (y ! 0 ! 0) = 3 \<and>
        y ! 0 ! 0 = log_softmax (Linear_apply (proj proj23) [0, 0]) \<and>
        sum_list (map exp (y ! 0 ! 0)) = 1)"
proof -
  have s: "Linear_shaped (proj proj23)" by (simp add: Linear_shaped_def proj23_def)
  have o: "0 < out_features (proj proj23)" by (simp add: proj23_def)
  have o3: "out_features (proj proj23) = 3" by (simp add: proj23_def)
  have h: "\<forall>row \<in> set [[[0, 0::real]]]. length row = 1"
          "\<forall>row \<in> set [[[0, 0::real]]]. \<forall>v \<in> set row. length v = in_features (proj proj23)"
    by (simp_all add: proj23_def)
  from ProjectionLayer_forward_log_softmax[OF s o refl h]
  obtain y where y: "ProjectionLayer_forward proj23 [[[0, 0]]] = Inr y" "length y = 1"
     and e: "\<forall>b < 1. length (y ! b) = 1 \<and>
             (\<forall>t < 1. length (y ! b ! t) = out_features (proj proj23) \<and>
                      y ! b ! t = log_softmax (Linear_apply (proj proj23) ([[[0, 0]]] ! b ! t)) \<and>
                      sum_list (map exp (y ! b ! t)) = 1)"
    by auto
  have e': "length (y ! b) = 1 \<and> length (y ! b ! t) = out_features (proj proj23) \<and>
                      y ! b ! t = log_softmax (Linear_apply (proj proj23) ([[[0, 0]]] ! b ! t)) \<and>
                      sum_list (map exp (y ! b ! t)) = 1"
    if "b < 1" "t < 1" for b t
    using e that by blast
  have z: "(0::nat) < 1" by simp
  note e0 = e'[OF z z, unfolded o3]
  have x0: "[[[0, 0::real]]] ! 0 ! 0 = [0, 0]" by simp
  have "length (y ! 0) = 1 \<and> length (y ! 0 ! 0) = 3 \<and>
        y ! 0 ! 0 = log_softmax (Linear_apply (proj proj23) [0, 0]) \<and>
        sum_list (map exp (y ! 0 ! 0)) = 1"
    using e0 unfolding x0 by blast
  with s o y show ?thesis by auto
qed

section \<open>Properties of the greedy decoding\<close>

lemma float32_ulp_small: "n < 2 ^ 24 \<Longrightarrow> float32_ulp 1 n = 1"
  by (subst float32_ulp.simps) simp

lemma float32_ulp_2_24: "float32_ulp 1 (2 ^ 24) = 2"
proof -
  have "float32_ulp 1 (2 ^ 24) = float32_ulp 2 (2 ^ 24)"
    by (subst float32_ulp.simps) simp
  also have "\<dots> = 2"
    by (subst float32_ulp.simps) simp
  finally show ?thesis .
qed

lemma float32_of_int_exact:
  assumes "\<bar>n\<bar> \<le> 2 ^ 24"
  shows "float32_of_int n = n"
proof (cases "\<bar>n\<bar> = 2 ^ 24")
  case True
  then have a: "nat \<bar>n\<bar> = 2 ^ 24"
    by (metis nat_numeral nat_power_eq zero_le_numeral)
  have "float32_of_int n = sgn n * int (2 ^ 24)"
    unfolding float32_of_int_def a float32_ulp_2_24 Let_def by simp
  also have "\<dots> = sgn n * \<bar>n\<bar>" using True by simp
  also have "\<dots> = n" by (simp add: mult_sgn_abs)
  finally show ?thesis .
next
  case False
  with assms have "\<bar>n\<bar> < 2 ^ 24" by simp
  then have "nat \<bar>n\<bar> < 2 ^ 24"
    by (metis abs_ge_zero nat_less_numeral_power_cancel_iff)
  then have u: "float32_ulp 1 (nat \<bar>n\<bar>) = 1" by (rule float32_ulp_small)
  have "float32_of_int n = sgn n * \<bar>n\<bar>"
    unfolding float32_of_int_def u Let_def by simp
  also have "\<dots> = n" by (simp add: mult_sgn_abs)
  finally show ?thesis .
qed

lemma float32_of_int_1: "float32_of_int 1 = 1"
  by (rule float32_of_int_exact) simp


lemma mask_size: "length (hd (type_as_int (causal_mask n))) = n"
  by (simp add: type_as_int_def causal_mask_def type_int_def triu_def ones_def)

lemma greeedy_step_stop:
  assumes "int (length (dec_input s)) = max_len"
  shows "greeedy_step m lp tm enc sm eos max_len s = (True, s\<lparr>iterations := Suc (iterations s)\<rparr>)"
  using assms by (simp add: greeedy_step_def Let_def)

lemma greeedy_step_go:
  assumes "int (length (dec_input s)) \<noteq> max_len"
  shows "greeedy_step m lp tm enc sm eos max_len s =
           (next_word m lp tm enc sm (dec_input s) = eos,
            \<lparr> dec_input = dec_input s @ [next_word m lp tm enc sm (dec_input s)],
              decode_calls = decode_calls s @
                 [(dec_input s, type_as_int (causal_mask (length (dec_input s))))],
              iterations = Suc (iterations s) \<rparr>)"
  using assms by (simp add: greeedy_step_def Let_def next_word_def)




lemma nth_append_step:
  assumes "\<forall>k. 1 \<le> k \<and> k < length xs \<longrightarrow> xs ! k = nw (take k xs)" "xs \<noteq> []"
  shows "\<forall>k. 1 \<le> k \<and> k < length (xs @ [nw xs]) \<longrightarrow> (xs @ [nw xs]) ! k = nw (take k (xs @ [nw xs]))"
proof (intro allI impI)
  fix k assume k: "1 \<le> k \<and> k < length (xs @ [nw xs])"
  show "(xs @ [nw xs]) ! k = nw (take k (xs @ [nw xs]))"
  proof (cases "k < length xs")
    case True
    then show ?thesis using assms(1) k by (simp add: nth_append)
  next
    case False
    with k have "k = length xs" by simp
    then show ?thesis by simp
  qed
qed







lemma count_model_5:
  "greeedy_decode count_model (\<lambda>x. x) (\<lambda>p. int p + 10) () () 1 2 5 =
     Some \<lparr> dec_input = [1, 11, 12, 13, 14],
            decode_calls = [([1], type_as_int (causal_mask 1)),
                            ([1, 11], type_as_int (causal_mask 2)),
                            ([1, 11, 12], type_as_int (causal_mask 3)),
                            ([1, 11, 12, 13], type_as_int (causal_mask 4))],
            iterations = 5 \<rparr>"
  unfolding greeedy_decode_def greeedy_init_def Let_def float32_of_int_1
  apply (subst greeedy_loop.simps)
  apply (simp add: greeedy_step_def Let_def count_model_def mask_size)
  apply (subst greeedy_loop.simps)
  apply (simp add: greeedy_step_def Let_def count_model_def mask_size)
  apply (subst greeedy_loop.simps)
  apply (simp add: greeedy_step_def Let_def count_model_def mask_size)
  apply (subst greeedy_loop.simps)
  apply (simp add: greeedy_step_def Let_def count_model_def mask_size)
  apply (subst greeedy_loop.simps)
  apply (simp add: greeedy_step_def Let_def count_model_def mask_size numeral_eq_Suc)
  done



section \<open>The mask of every decoding step\<close>

lemma calls_match_step:
  assumes c: "calls_match s" and n: "dec_input s \<noteq> []"
  shows "calls_match (snd (greeedy_step m lp tm enc sm eos max_len s)) \<and>
         dec_input (snd (greeedy_step m lp tm enc sm eos max_len s)) \<noteq> []"
proof (cases "int (length (dec_input s)) = max_len")
  case True
  then show ?thesis using c n by (simp add: greeedy_step_stop calls_match_def)
next
  case False
  let ?xs = "dec_input s"
  let ?y = "next_word m lp tm enc sm ?xs"
  let ?M = "\<lambda>k. type_as_int (causal_mask k)"
  have one: "1 \<le> length ?xs" using n by (cases ?xs) auto
  have u: "[1..<length (?xs @ [?y])] = [1..<length ?xs] @ [length ?xs]"
    using one by simp
  have "map (\<lambda>k. (take k (?xs @ [?y]), ?M k)) [1..<length ?xs]
          = map (\<lambda>k. (take k ?xs, ?M k)) [1..<length ?xs]"
    by (rule map_cong) auto
  then have "map (\<lambda>k. (take k (?xs @ [?y]), ?M k)) [1..<length (?xs @ [?y])]
          = decode_calls s @ [(?xs, ?M (length ?xs))]"
    unfolding u using c by (simp add: calls_match_def)
  then show ?thesis
    by (simp add: greeedy_step_go[OF False] calls_match_def)
qed

lemma calls_match_iter:
  assumes "calls_match s" "dec_input s \<noteq> []"
  shows "calls_match (greeedy_iter m lp tm enc sm eos max_len n s) \<and>
         dec_input (greeedy_iter m lp tm enc sm eos max_len n s) \<noteq> []"
  using assms
proof (induction n arbitrary: s)
  case 0
  then show ?case by simp
next
  case (Suc n)
  note st = calls_match_step[OF Suc.prems, of m lp tm enc sm eos max_len]
  show ?case
  proof (cases "fst (greeedy_step m lp tm enc sm eos max_len s)")
    case True
    then show ?thesis using st by (simp add: Let_def)
  next
    case False
    from st have "calls_match (snd (greeedy_step m lp tm enc sm eos max_len s))"
      and "dec_input (snd (greeedy_step m lp tm enc sm eos max_len s)) \<noteq> []"
      by simp_all
    from Suc.IH[OF this] False show ?thesis by (simp add: Let_def)
  qed
qed

lemma calls_match_loop:
  assumes "greeedy_loop m lp tm enc sm eos max_len s = Some r"
  shows "calls_match s \<and> dec_input s \<noteq> [] \<longrightarrow> calls_match r"
proof (rule greeedy_loop.raw_induct[where P = "\<lambda>m lp tm enc sm eos max_len s r.
          calls_match s \<and> dec_input s \<noteq> [] \<longrightarrow> calls_match r", OF _ assms], goal_cases)
  case (1 loop m lp tm enc sm eos max_len s r)
  show ?case
  proof
    assume a: "calls_match s \<and> dec_input s \<noteq> []"
    then have st: "calls_match (snd (greeedy_step m lp tm enc sm eos max_len s)) \<and>
         dec_input (snd (greeedy_step m lp tm enc sm eos max_len s)) \<noteq> []"
      using calls_match_step[of s m lp tm enc sm eos max_len] by simp
    show "calls_match r"
    proof (cases "fst (greeedy_step m lp tm enc sm eos max_len s)")
      case True
      with 1(2) st show ?thesis by (simp add: Let_def)
    next
      case False
      with 1(2) have "loop m lp tm enc sm eos max_len (snd (greeedy_step m lp tm enc sm eos max_len s)) = Some r"
        by (simp add: Let_def)
      from 1(1)[OF this] st show ?thesis by blast
    qed
  qed
qed

lemma calls_match_init: "calls_match (greeedy_init sos) \<and> dec_input (greeedy_init sos) \<noteq> []"
  by (simp add: calls_match_def greeedy_init_def)

lemma calls_match_set:
  assumes "calls_match s"
  shows "\<forall>(tgt, tgt_mask) \<in> set (decode_calls s).
            tgt_mask = type_as_int (causal_mask (length tgt)) \<and> length tgt < length (dec_input s)"
  using assms by (auto simp: calls_match_def)

lemma tokens_match_init: "tokens_match nw (greeedy_init sos)"
  by (simp add: tokens_match_def greeedy_init_def)

lemma greeedy_step_nonempty:
  assumes "dec_input s \<noteq> []"
  shows "dec_input (snd (greeedy_step m lp tm enc sm eos max_len s)) \<noteq> []"
  using assms
  by (cases "int (length (dec_input s)) = max_len")
     (simp_all add: greeedy_step_stop greeedy_step_go)

lemma tokens_match_step:
  assumes c: "tokens_match (next_word m lp tm enc sm) s" and n: "dec_input s \<noteq> []"
  shows "tokens_match (next_word m lp tm enc sm) (snd (greeedy_step m lp tm enc sm eos max_len s))"
proof (cases "int (length (dec_input s)) = max_len")
  case True
  then show ?thesis using c by (simp add: greeedy_step_stop tokens_match_def)
next
  case False
  from c have "\<forall>k. 1 \<le> k \<and> k < length (dec_input s) \<longrightarrow>
      dec_input s ! k = next_word m lp tm enc sm (take k (dec_input s))"
    by (simp add: tokens_match_def)
  from nth_append_step[OF this n] show ?thesis
    by (simp add: greeedy_step_go[OF False] tokens_match_def)
qed

lemma tokens_match_iter:
  assumes "tokens_match (next_word m lp tm enc sm) s" "dec_input s \<noteq> []"
  shows "tokens_match (next_word m lp tm enc sm) (greeedy_iter m lp tm enc sm eos max_len n s)"
  using assms
proof (induction n arbitrary: s)
  case 0
  then show ?case by simp
next
  case (Suc n)
  note st = tokens_match_step[OF Suc.prems, of eos max_len]
  note ne = greeedy_step_nonempty[OF Suc.prems(2), of m lp tm enc sm eos max_len]
  show ?case
  proof (cases "fst (greeedy_step m lp tm enc sm eos max_len s)")
    case True
    then show ?thesis using st by (simp add: Let_def)
  next
    case False
    from Suc.IH[OF st ne] False show ?thesis by (simp add: Let_def)
  qed
qed

lemma tokens_match_loop:
  assumes "greeedy_loop m lp tm enc sm eos max_len s = Some r"
  shows "tokens_match (next_word m lp tm enc sm) s \<and> dec_input s \<noteq> [] \<longrightarrow>
         tokens_match (next_word m lp tm enc sm) r"
proof (rule greeedy_loop.raw_induct[where P = "\<lambda>m lp tm enc sm eos max_len s r.
          tokens_match (next_word m lp tm enc sm) s \<and> dec_input s \<noteq> [] \<longrightarrow>
          tokens_match (next_word m lp tm enc sm) r", OF _ assms], goal_cases)
  case (1 loop m lp tm enc sm eos max_len s r)
  show ?case
  proof
    assume a: "tokens_match (next_word m lp tm enc sm) s \<and> dec_input s \<noteq> []"
    then have st: "tokens_match (next_word m lp tm enc sm)
                     (snd (greeedy_step m lp tm enc sm eos max_len s))"
      using tokens_match_step[of m lp tm enc sm s eos max_len] by simp
    have ne: "dec_input (snd (greeedy_step m lp tm enc sm eos max_len s)) \<noteq> []"
      using a greeedy_step_nonempty[of s m lp tm enc sm eos max_len] by simp
    show "tokens_match (next_word m lp tm enc sm) r"
    proof (cases "fst (greeedy_step m lp tm enc sm eos max_len s)")
      case True
      with 1(2) st show ?thesis by (simp add: Let_def)
    next
      case False
      with 1(2) have "loop m lp tm enc sm eos max_len (snd (greeedy_step m lp tm enc sm eos max_len s)) = Some r"
        by (simp add: Let_def)
      from 1(1)[OF this] st ne show ?thesis by simp
    qed
  qed
qed

lemma tokens_match_decode:
  assumes "tokens_match (next_word m lp tm enc sm) s"
  shows "\<forall>k. 1 \<le> k \<and> k < length (dec_input s) \<longrightarrow>
           dec_input s ! k =
             tm (project m (lp (decode m enc sm (take k (dec_input s))
                                  (type_as_int (causal_mask k)))))"
proof (intro allI impI)
  fix k assume k: "1 \<le> k \<and> k < length (dec_input s)"
  then have "length (take k (dec_input s)) = k" by simp
  with assms k show "dec_input s ! k =
             tm (project m (lp (decode m enc sm (take k (dec_input s))
                                  (type_as_int (causal_mask k)))))"
    by (simp add: tokens_match_def next_word_def)
qed

text \<open>
  Claim C8. A pass through the loop body of \<^verbatim>\<open>greeedy_decode\<close> that does not stop
  at the length check appends the id chosen from \<^verbatim>\<open>model.decode\<close> called with the
  current decoder input and the causal mask of the size of that input. So in whatever
  state the loop is after any number of passes, and in the state it returns, the id at
  every place \<open>k \<ge> 1\<close> is the one chosen from \<^verbatim>\<open>model.decode\<close> on the first \<open>k\<close>
  ids with the causal mask of size \<open>k\<close>, and the \<open>k\<close>-th call of \<^verbatim>\<open>model.decode\<close>
  was given the first \<open>k\<close> ids and the causal mask of size \<open>k\<close>: the target mask of
  every call is the causal mask of the size of the decoder input of that call, which
  is shorter than the sequence the loop has reached.
\<close>

theorem greeedy_decode_mask_follows_length:
  "(\<forall>s0. int (length (dec_input s0)) \<noteq> max_len \<longrightarrow>
      dec_input (snd (greeedy_step m lp tm (encode m source sm) sm eos max_len s0)) =
        dec_input s0 @
          [tm (project m (lp (decode m (encode m source sm) sm (dec_input s0)
                                (type_as_int (causal_mask (length (dec_input s0)))))))]) \<and>
   (let s = greeedy_iter m lp tm (encode m source sm) sm eos max_len n (greeedy_init sos)
    in (\<forall>k. 1 \<le> k \<and> k < length (dec_input s) \<longrightarrow>
           dec_input s ! k =
             tm (project m (lp (decode m (encode m source sm) sm (take k (dec_input s))
                                  (type_as_int (causal_mask k)))))) \<and>
       decode_calls s =
         map (\<lambda>k. (take k (dec_input s), type_as_int (causal_mask k))) [1..<length (dec_input s)] \<and>
       (\<forall>(tgt, tgt_mask) \<in> set (decode_calls s).
           tgt_mask = type_as_int (causal_mask (length tgt)) \<and>
           length tgt < length (dec_input s))) \<and>
   (greeedy_decode m lp tm source sm sos eos max_len = Some r \<longrightarrow>
      (\<forall>k. 1 \<le> k \<and> k < length (dec_input r) \<longrightarrow>
           dec_input r ! k =
             tm (project m (lp (decode m (encode m source sm) sm (take k (dec_input r))
                                  (type_as_int (causal_mask k)))))) \<and>
      decode_calls r =
         map (\<lambda>k. (take k (dec_input r), type_as_int (causal_mask k))) [1..<length (dec_input r)] \<and>
      (\<forall>(tgt, tgt_mask) \<in> set (decode_calls r).
           tgt_mask = type_as_int (causal_mask (length tgt)) \<and>
           length tgt < length (dec_input r)))"
proof -
  let ?enc = "encode m source sm"
  let ?s = "greeedy_iter m lp tm ?enc sm eos max_len n (greeedy_init sos)"
  have i: "calls_match (greeedy_init sos)" "dec_input (greeedy_init sos) \<noteq> []"
    using calls_match_init by simp_all
  have p1: "\<forall>s0. int (length (dec_input s0)) \<noteq> max_len \<longrightarrow>
      dec_input (snd (greeedy_step m lp tm ?enc sm eos max_len s0)) =
        dec_input s0 @
          [tm (project m (lp (decode m ?enc sm (dec_input s0)
                                (type_as_int (causal_mask (length (dec_input s0)))))))]"
    by (simp add: greeedy_step_def Let_def)
  have c: "calls_match ?s"
    using calls_match_iter[OF i, of m lp tm ?enc sm eos max_len n] by simp
  have w: "tokens_match (next_word m lp tm ?enc sm) ?s"
    by (rule tokens_match_iter[OF tokens_match_init i(2)])
  have p2: "let s = ?s
    in (\<forall>k. 1 \<le> k \<and> k < length (dec_input s) \<longrightarrow>
           dec_input s ! k =
             tm (project m (lp (decode m ?enc sm (take k (dec_input s))
                                  (type_as_int (causal_mask k)))))) \<and>
       decode_calls s =
         map (\<lambda>k. (take k (dec_input s), type_as_int (causal_mask k))) [1..<length (dec_input s)] \<and>
       (\<forall>(tgt, tgt_mask) \<in> set (decode_calls s).
           tgt_mask = type_as_int (causal_mask (length tgt)) \<and>
           length tgt < length (dec_input s))"
    unfolding Let_def
    using c calls_match_set[OF c] tokens_match_decode[OF w] by (simp add: calls_match_def)
  have p3: "(\<forall>k. 1 \<le> k \<and> k < length (dec_input r) \<longrightarrow>
           dec_input r ! k =
             tm (project m (lp (decode m ?enc sm (take k (dec_input r))
                                  (type_as_int (causal_mask k)))))) \<and>
      decode_calls r =
         map (\<lambda>k. (take k (dec_input r), type_as_int (causal_mask k))) [1..<length (dec_input r)] \<and>
      (\<forall>(tgt, tgt_mask) \<in> set (decode_calls r).
           tgt_mask = type_as_int (causal_mask (length tgt)) \<and>
           length tgt < length (dec_input r))"
    if g: "greeedy_decode m lp tm source sm sos eos max_len = Some r"
  proof -
    from g have l: "greeedy_loop m lp tm ?enc sm eos max_len (greeedy_init sos) = Some r"
      by (simp add: greeedy_decode_def)
    from calls_match_loop[OF l] i have r: "calls_match r" by simp
    from tokens_match_loop[OF l] tokens_match_init[of "next_word m lp tm ?enc sm" sos] i(2)
    have wr: "tokens_match (next_word m lp tm ?enc sm) r" by simp
    show ?thesis
      using r calls_match_set[OF r] tokens_match_decode[OF wr] by (simp add: calls_match_def)
  qed
  have p3': "greeedy_decode m lp tm source sm sos eos max_len = Some r \<longrightarrow>
      (\<forall>k. 1 \<le> k \<and> k < length (dec_input r) \<longrightarrow>
           dec_input r ! k =
             tm (project m (lp (decode m ?enc sm (take k (dec_input r))
                                  (type_as_int (causal_mask k)))))) \<and>
      decode_calls r =
         map (\<lambda>k. (take k (dec_input r), type_as_int (causal_mask k))) [1..<length (dec_input r)] \<and>
      (\<forall>(tgt, tgt_mask) \<in> set (decode_calls r).
           tgt_mask = type_as_int (causal_mask (length tgt)) \<and>
           length tgt < length (dec_input r))"
    by (rule impI) (rule p3)
  show ?thesis by (rule conjI[OF p1 conjI[OF p2 p3']])
qed

lemma causal_mask_2: "type_as_int (causal_mask 2) = [[[1, 0], [1, 1]]]"
  by (simp add: type_as_int_def causal_mask_def type_int_def triu_def ones_def upt_rec numeral_eq_Suc)

theorem greeedy_decode_mask_follows_length_witness:
  "\<exists>r. greeedy_decode count_model (\<lambda>x. x) (\<lambda>p. int p + 10) () () 1 2 5 = Some r \<and>
       dec_input r = [1, 11, 12, 13, 14] \<and>
       dec_input r ! 3 = int (decode count_model () () (take 3 (dec_input r))
                                (type_as_int (causal_mask 3))) + 10 \<and>
       length (decode_calls r) = 4 \<and>
       decode_calls r ! 1 = ([1, 11], [[[1, 0], [1, 1]]]) \<and>
       snd (decode_calls r ! 3) = type_as_int (causal_mask (length (fst (decode_calls r ! 3)))) \<and>
       length (fst (decode_calls r ! 3)) = 4"
proof -
  let ?r = "\<lparr> dec_input = [1, 11, 12, 13, 14],
            decode_calls = [([1], type_as_int (causal_mask 1)),
                            ([1, 11], type_as_int (causal_mask 2)),
                            ([1, 11, 12], type_as_int (causal_mask 3)),
                            ([1, 11, 12, 13], type_as_int (causal_mask 4))],
            iterations = 5 \<rparr>"
  have g: "greeedy_decode count_model (\<lambda>x. x) (\<lambda>p. int p + 10) () () 1 2 5 = Some ?r"
    by (rule count_model_5)
  note t = greeedy_decode_mask_follows_length[of 5 count_model "\<lambda>x. x" "\<lambda>p. int p + 10" "()" "()" 2 0 1 ?r]
  note v = t[THEN conjunct2, THEN conjunct2, THEN mp, OF g, THEN conjunct1]
  note a = t[THEN conjunct2, THEN conjunct2, THEN mp, OF g, THEN conjunct2, THEN conjunct2]
  have e: "encode count_model () () = ()" by simp
  have k: "1 \<le> (3::nat) \<and> 3 < length (dec_input ?r)" by simp
  from v[THEN spec, of 3, THEN mp, OF k]
  have w: "dec_input ?r ! 3 = int (decode count_model () () (take 3 (dec_input ?r))
                                (type_as_int (causal_mask 3))) + 10"
    unfolding e by (simp add: count_model_def mask_size)
  have m: "([1, 11, 12, 13], type_as_int (causal_mask 4)) \<in> set (decode_calls ?r)"
    by simp
  have b: "snd (decode_calls ?r ! 3) = type_as_int (causal_mask (length (fst (decode_calls ?r ! 3))))"
    using bspec[OF a m] by simp
  have c: "decode_calls ?r ! 1 = ([1, 11], [[[1, 0], [1, 1]]])"
    by (simp add: causal_mask_2)
  have d: "length (decode_calls ?r) = 4" "length (fst (decode_calls ?r ! 3)) = 4"
           "dec_input ?r = [1, 11, 12, 13, 14]"
    by simp_all
  show ?thesis
    by (intro exI[of _ ?r] conjI g w b c d)
qed

section \<open>The masks of the training pass\<close>

lemma DecoderBlock_forward_unfolded:
  "DecoderBlock_forward blk x encoder_output src_mask tgt_mask =
     and_then (self_attention_block blk (rc_norm (residual_connections blk ! 0) x)
                 (rc_norm (residual_connections blk ! 0) x)
                 (rc_norm (residual_connections blk ! 0) x) tgt_mask)
       (\<lambda>a. let x1 = x + rc_dropout (residual_connections blk ! 0) a
             in and_then (cross_attention_block blk (rc_norm (residual_connections blk ! 1) x1)
                            encoder_output encoder_output src_mask)
                  (\<lambda>c. let x2 = x1 + rc_dropout (residual_connections blk ! 1) c
                        in and_then (feed_forward_block blk
                                       (rc_norm (residual_connections blk ! 2) x2))
                             (\<lambda>f. Inr (x2 + rc_dropout (residual_connections blk ! 2) f))))"
  by (simp add: DecoderBlock_forward_def ResidualConnection_forward_def and_then_def Let_def
           split: sum.splits)

lemma DecoderBlock_forward_claimed:
  "DecoderBlock_forward blk x encoder_output m m = claimed_decoder_block blk m encoder_output x"
  by (simp add: DecoderBlock_forward_unfolded claimed_decoder_block_def)

lemma Decoder_layers_claimed:
  "Decoder_layers layers x encoder_output m m = claimed_decoder_layers layers m encoder_output x"
  by (induction layers arbitrary: x)
     (simp_all add: DecoderBlock_forward_claimed and_then_def split: sum.splits)

lemma train_forward_decode_call:
  "train_forward model b =
     and_then (Transformer_encode model (batch_encoder_input b) (batch_encoder_mask b))
       (\<lambda>encoder_output.
          and_then (Transformer_decode model encoder_output (batch_decoder_mask b)
                      (batch_decoder_input b) (batch_decoder_mask b))
            (Transformer_project model))"
  by (simp add: train_forward_def Let_def)

lemma train_forward_claimed: "train_forward model b = claimed_train_forward model b"
  by (simp add: train_forward_def claimed_train_forward_def Transformer_decode_def
        Transformer_project_def Decoder_forward_def Decoder_layers_claimed and_then_def Let_def
      split: sum.splits)

lemma train_epoch_claimed:
  "train_epoch update model bs = claimed_train_epoch update model bs"
  by (induction bs arbitrary: model) (simp_all add: train_forward_claimed)

text \<open>
  Claim C10, amended. In the forward pass of every turn of the batch loop of the
  training, \<^verbatim>\<open>Transformer.decode\<close> is called on the encoder output with the decoder
  mask of the batch both as \<^verbatim>\<open>src_mask\<close> and as \<^verbatim>\<open>tgt_mask\<close> (if the encoder has not
  raised); a decoder block hands its \<^verbatim>\<open>src_mask\<close> to its cross-attention block as the
  mask argument; so the pass, and the loop over the batches of an epoch, is the one in
  which every cross-attention block of the decoder is called with the decoder mask of
  the batch, not with the encoder mask. What an attention block does with its mask is
  not part of the statement.
\<close>

theorem train_decode_gets_decoder_mask_twice:
  "train_forward model b =
     and_then (Transformer_encode model (batch_encoder_input b) (batch_encoder_mask b))
       (\<lambda>encoder_output.
          and_then (Transformer_decode model encoder_output (batch_decoder_mask b)
                      (batch_decoder_input b) (batch_decoder_mask b))
            (Transformer_project model)) \<and>
   DecoderBlock_forward blk x encoder_output src_mask tgt_mask =
     and_then (self_attention_block blk (rc_norm (residual_connections blk ! 0) x)
                 (rc_norm (residual_connections blk ! 0) x)
                 (rc_norm (residual_connections blk ! 0) x) tgt_mask)
       (\<lambda>a. let x1 = x + rc_dropout (residual_connections blk ! 0) a
             in and_then (cross_attention_block blk (rc_norm (residual_connections blk ! 1) x1)
                            encoder_output encoder_output src_mask)
                  (\<lambda>c. let x2 = x1 + rc_dropout (residual_connections blk ! 1) c
                        in and_then (feed_forward_block blk
                                       (rc_norm (residual_connections blk ! 2) x2))
                             (\<lambda>f. Inr (x2 + rc_dropout (residual_connections blk ! 2) f)))) \<and>
   train_forward model b = claimed_train_forward model b \<and>
   train_epoch update model bs = claimed_train_epoch update model bs"
  by (intro conjI train_forward_decode_call DecoderBlock_forward_unfolded
        train_forward_claimed train_epoch_claimed)

lemma toy_claimed_train_forward: "claimed_train_forward toy_transformer toy_batch = Inr 1082"
  by (simp add: claimed_train_forward_def claimed_decoder_block_def toy_transformer_def
        toy_batch_def toy_decoder_block_def toy_self_attention_def toy_cross_attention_def
        rc_id_def Transformer_encode_def Encoder_forward_def EncoderBlock_forward_def
        ResidualConnection_forward_def and_then_def Let_def)

lemma toy_claimed_train_forward_raises:
  "claimed_train_forward toy_transformer (toy_batch\<lparr>batch_encoder_mask := 0\<rparr>) = Inl RuntimeError"
  by (simp add: claimed_train_forward_def toy_transformer_def
        toy_batch_def toy_self_attention_def
        rc_id_def Transformer_encode_def Encoder_forward_def EncoderBlock_forward_def
        ResidualConnection_forward_def and_then_def Let_def)

theorem train_decode_gets_decoder_mask_twice_witness:
  "train_forward toy_transformer toy_batch = Inr 1082 \<and>
   train_forward toy_transformer (toy_batch\<lparr>batch_encoder_mask := 0\<rparr>) = Inl RuntimeError \<and>
   train_epoch (\<lambda>m p b. m) toy_transformer [toy_batch]
     = claimed_train_epoch (\<lambda>m p b. m) toy_transformer [toy_batch] \<and>
   batch_decoder_mask toy_batch = 7 \<and> batch_encoder_mask toy_batch = 5"
proof -
  note t = train_decode_gets_decoder_mask_twice[of toy_transformer toy_batch undefined undefined
      undefined undefined undefined "\<lambda>m p b. m" "[toy_batch]"]
  note t' = train_decode_gets_decoder_mask_twice[of toy_transformer
      "toy_batch\<lparr>batch_encoder_mask := 0\<rparr>" undefined undefined
      undefined undefined undefined "\<lambda>m p b. m" "[]"]
  note t3 = t[THEN conjunct2, THEN conjunct2, THEN conjunct1]
  note t3' = t'[THEN conjunct2, THEN conjunct2, THEN conjunct1]
  note t4 = t[THEN conjunct2, THEN conjunct2, THEN conjunct2]
  have a: "train_forward toy_transformer toy_batch = Inr 1082"
    unfolding t3 by (rule toy_claimed_train_forward)
  have r: "train_forward toy_transformer (toy_batch\<lparr>batch_encoder_mask := 0\<rparr>) = Inl RuntimeError"
    unfolding t3' by (rule toy_claimed_train_forward_raises)
  have d: "batch_decoder_mask toy_batch = 7" "batch_encoder_mask toy_batch = 5"
    by (simp_all add: toy_batch_def)
  show ?thesis by (intro conjI a r t4 d)
qed

lemma getitem_ds2:
  "getitem ds2 ([], []) =
     Inr \<lparr> encoder_input = [2, 3], decoder_input = [2, 8],
           encoder_mask = [[1, 1]], decoder_mask = [[[1, 0], [1, 1]]],
           label = [8, 3], src_text = [], tgt_text = [] \<rparr>"
  by (simp add: getitem_def ds2_def Let_def enc_num_padding_tokens_def dec_num_padding_tokens_def
        padding_mask_def and_broadcast_def causal_mask_def type_int_def triu_def ones_def upt_rec)

lemma mha1_forward:
  "MultiHeadAttentionBlock_forward mha1 [[0], [0]] [[1], [2]] [[1], [2]] (Some [[1, 0], [1, 1]])
     = ([[3 / 2], [3 / 2]], [[[1 / 2, 1 / 2], [1 / 2, 1 / 2]]])"
  by (simp add: MultiHeadAttentionBlock_forward_def Let_def mha1_def Linear_apply_def
        linear_id1_def split_heads_def merge_heads_def attention_def matmul_def transpose_m_def
        softmax_0_0 upt_rec)


text \<open>
  The claim as it stands ends in: cross-attention during training is masked by the
  target mask. It is not masked at all. The decoder mask of a sample of two ids is
  \<open>[[1, 0], [1, 1]]\<close>: it forbids query 0 to attend to key 1. Called the way a
  decoder block calls its cross-attention block in training, with that mask, an
  attention block gives key 1 the weight \<open>1 / 2\<close> for query 0, and returns for
  query 0 the mean \<open>3 / 2\<close> of the two values 1 and 2 and not the value 1 that the
  mask leaves.
\<close>

theorem cross_attention_not_masked:
  "getitem ds2 ([], []) =
     Inr \<lparr> encoder_input = [2, 3], decoder_input = [2, 8],
           encoder_mask = [[1, 1]], decoder_mask = [[[1, 0], [1, 1]]],
           label = [8, 3], src_text = [], tgt_text = [] \<rparr> \<and>
   MultiHeadAttentionBlock_forward mha1 [[0], [0]] [[1], [2]] [[1], [2]] (Some [[1, 0], [1, 1]])
     = ([[3 / 2], [3 / 2]], [[[1 / 2, 1 / 2], [1 / 2, 1 / 2]]]) \<and>
   snd (MultiHeadAttentionBlock_forward mha1 [[0], [0]] [[1], [2]] [[1], [2]]
          (Some [[1, 0], [1, 1]])) ! 0 ! 0 ! 1 \<noteq> 0"
proof (intro conjI)
  show "getitem ds2 ([], []) =
     Inr \<lparr> encoder_input = [2, 3], decoder_input = [2, 8],
           encoder_mask = [[1, 1]], decoder_mask = [[[1, 0], [1, 1]]],
           label = [8, 3], src_text = [], tgt_text = [] \<rparr>"
    by (rule getitem_ds2)
  show "MultiHeadAttentionBlock_forward mha1 [[0], [0]] [[1], [2]] [[1], [2]] (Some [[1, 0], [1, 1]])
     = ([[3 / 2], [3 / 2]], [[[1 / 2, 1 / 2], [1 / 2, 1 / 2]]])"
    by (rule mha1_forward)
  show "snd (MultiHeadAttentionBlock_forward mha1 [[0], [0]] [[1], [2]] [[1], [2]]
          (Some [[1, 0], [1, 1]])) ! 0 ! 0 ! 1 \<noteq> 0"
    unfolding mha1_forward by simp
qed

end
